theory Spec2Isabelle
  imports Complex_Main
begin

section \<open>Locale fallback (class LocaleFallbackStrategy)\<close>

text \<open>
  Python's \<^verbatim>\<open>str.rfind\<close> for a one-character needle: the highest index at which the
  character occurs, or \<open>-1\<close> when it does not occur.
\<close>

primrec rfind :: "string \<Rightarrow> char \<Rightarrow> int" where
  "rfind [] c = - 1"
| "rfind (x # xs) c =
     (let r = rfind xs c in if 0 \<le> r then r + 1 else if x = c then 0 else - 1)"

lemma rfind_lower: "- 1 \<le> rfind s c"
  by (induction s) (auto simp: Let_def)

lemma rfind_upper: "rfind s c < int (length s)"
  by (induction s) (auto simp: Let_def)

text \<open>
  \<^verbatim>\<open>split_locale(self, result, locale)\<close>: the loop appends the locale to \<open>result\<close>, cuts
  it at the last underscore and goes on with the prefix; it stops on \<open>None\<close> and when
  there is no underscore left. \<open>locale[:pos]\<close> is \<open>take pos\<close>.
\<close>

function split_locale :: "string list \<Rightarrow> string option \<Rightarrow> string list" where
  "split_locale result None = result"
| "split_locale result (Some l) =
     (let result' = result @ [l];
          pos = rfind l (CHR ''_'')
      in if pos < 0 then result' else split_locale result' (Some (take (nat pos) l)))"
  by pat_completeness auto
termination
proof (relation "measure (\<lambda>(result, l). case l of None \<Rightarrow> 0 | Some s \<Rightarrow> Suc (length s))")
  show "wf (measure (\<lambda>(result, l). case l of None \<Rightarrow> 0 | Some s \<Rightarrow> Suc (length s)))"
    by simp
next
  fix result :: "string list" and l :: string and x :: "string list" and xa :: int
  assume "xa = rfind l (CHR ''_'')" and "\<not> xa < 0"
  then have "nat xa < length l"
    using rfind_upper [of l "CHR ''_''"] by simp
  then show "((x, Some (take (nat xa) l)), (result, Some l))
      \<in> measure (\<lambda>(result, l). case l of None \<Rightarrow> 0 | Some s \<Rightarrow> Suc (length s))"
    by simp
qed

declare split_locale.simps(2) [simp del]

text \<open>
  \<^verbatim>\<open>LocaleFallbackStrategy.apply(self, locale)\<close>; the first argument is the strategy's
  \<open>default_locale\<close> field.
\<close>

definition LocaleFallbackStrategy_apply :: "string option \<Rightarrow> string option \<Rightarrow> string list" where
  "LocaleFallbackStrategy_apply default_locale l =
     split_locale (split_locale [] l) default_locale"

text \<open>
  The chain as the specification words it: the locale is a sequence of segments
  separated by underscores; its truncations are the non-empty prefixes of that sequence,
  longest first, each written with its underscores again.
\<close>

primrec split_on :: "char \<Rightarrow> string \<Rightarrow> string list" where
  "split_on c [] = [[]]"
| "split_on c (x # xs) =
     (if x = c then [] # split_on c xs
      else (case split_on c xs of [] \<Rightarrow> [[x]] | y # ys \<Rightarrow> (x # y) # ys))"

fun join_with :: "char \<Rightarrow> string list \<Rightarrow> string" where
  "join_with c [] = []"
| "join_with c [s] = s"
| "join_with c (s # t # ts) = s @ c # join_with c (t # ts)"

definition truncations :: "string \<Rightarrow> string list" where
  "truncations s =
     map (\<lambda>k. join_with (CHR ''_'') (take k (split_on (CHR ''_'') s)))
       (rev [1 ..< Suc (length (split_on (CHR ''_'') s))])"

section \<open>Python values\<close>

text \<open>
  A float is kept exactly: \<open>Finite s m e\<close> is the double \<open>(-1)^s * m * 2^e\<close>
  (so both zeros exist), beside the infinities and NaN.
\<close>

datatype pyfloat = Finite bool nat int | Infinite bool | NaN

text \<open>
  The values a message can carry as arguments. \<open>VObj c r\<close> is an instance of any other
  class \<open>c\<close> (a \<^verbatim>\<open>datetime.date\<close>, say) with \<open>r\<close> telling instances apart. A message
  is built by \<^verbatim>\<open>I18NMessage(key, locale=None, *args, **kwargs)\<close>; a dict is the list of
  its items, keys distinct.
\<close>

datatype val =
    VStr string
  | VInt int
  | VBool bool
  | VFloat pyfloat
  | VNone
  | VList "val list"
  | VTuple "val list"
  | VDict "(string \<times> val) list"
  | VObj string string
  | VMsg I18NMessage
and I18NMessage =
    I18NMessage (key: string) (msg_locale: "string option") (args: "val list")
      (kwargs: "(string \<times> val) list")

text \<open>\<^verbatim>\<open>I18NMessage.with_locale\<close>: a new message, the receiver unchanged.\<close>

definition with_locale :: "I18NMessage \<Rightarrow> string option \<Rightarrow> I18NMessage" where
  "with_locale self l = I18NMessage (key self) l (args self) (kwargs self)"

text \<open>\<^verbatim>\<open>type(inst)\<close>, the key of the dispatch cache.\<close>

datatype pytype =
    T_str | T_int | T_bool | T_float | T_NoneType | T_list | T_tuple | T_dict
  | T_I18NMessage | T_object string

fun type_of :: "val \<Rightarrow> pytype" where
  "type_of (VStr _) = T_str"
| "type_of (VInt _) = T_int"
| "type_of (VBool _) = T_bool"
| "type_of (VFloat _) = T_float"
| "type_of VNone = T_NoneType"
| "type_of (VList _) = T_list"
| "type_of (VTuple _) = T_tuple"
| "type_of (VDict _) = T_dict"
| "type_of (VObj c _) = T_object c"
| "type_of (VMsg _) = T_I18NMessage"

section \<open>Fragments and exceptions\<close>

datatype argref = IndexRef int | NameRef val

datatype fragment = TextFragment string | ArgumentFragment argref "(string \<times> val) list"

text \<open>
  Every \<^verbatim>\<open>I18nException\<close> of the module is raised with a formatted message; the model
  keeps the format's arguments instead of the text (\<open>reason\<close>), and the exception
  chained with \<^verbatim>\<open>raise ... from e\<close> as the cause. The other constructors are the
  built-in exceptions the code can meet. \<open>NotModelled\<close> marks an operand of Python's
  \<^verbatim>\<open>%\<close> operator that this development leaves out.
\<close>

datatype reason =
    Missing_text string
  | No_factory val
  | Error_formatting "fragment list" "val list" "(string \<times> val) list"
  | Error_translating val "string option"
  | Unsupported_part val
  | Error_parsing val

datatype exn =
    I18nException reason "exn option"
  | TypeError string
  | KeyError val
  | IndexError
  | AttributeError string
  | ValueError string
  | NameError string
  | OverflowError
  | NotModelled

fun is_I18nException :: "exn \<Rightarrow> bool" where
  "is_I18nException (I18nException _ _) = True"
| "is_I18nException _ = False"

section \<open>The \<^verbatim>\<open>%\<close> operator on a format string and a number\<close>

definition digit_char :: "nat \<Rightarrow> char" where
  "digit_char d = ''0123456789'' ! d"

fun decimal :: "nat \<Rightarrow> string" where
  "decimal n = (if n < 10 then [digit_char n] else decimal (n div 10) @ [digit_char (n mod 10)])"

declare decimal.simps [simp del]

definition str_int :: "int \<Rightarrow> string" where
  "str_int i = (if i < 0 then CHR ''-'' # decimal (nat (- i)) else decimal (nat i))"

text \<open>Division rounded to the nearest integer, ties to the even one.\<close>

definition rhe_div :: "nat \<Rightarrow> nat \<Rightarrow> nat" where
  "rhe_div a b =
     (let q = a div b; r = a mod b
      in if b < 2 * r \<or> (2 * r = b \<and> odd q) then q + 1 else q)"

text \<open>
  \<open>%.pf\<close> on a double is the correctly rounded decimal of its exact value:
  \<open>scaled m e p\<close> is \<open>m * 2^e * 10^p\<close> rounded to an integer.
\<close>

definition scaled :: "nat \<Rightarrow> int \<Rightarrow> nat \<Rightarrow> nat" where
  "scaled m e p =
     (if 0 \<le> e then m * 2 ^ nat e * 10 ^ p else rhe_div (m * 10 ^ p) (2 ^ nat (- e)))"

definition fixed_digits :: "nat \<Rightarrow> nat \<Rightarrow> string" where
  "fixed_digits n p =
     (let whole = decimal (n div 10 ^ p); frac = decimal (n mod 10 ^ p)
      in if p = 0 then whole
         else whole @ CHR ''.'' # replicate (p - length frac) (CHR ''0'') @ frac)"

fun format_f :: "nat \<Rightarrow> pyfloat \<Rightarrow> string" where
  "format_f p (Finite s m e) = (if s then ''-'' else []) @ fixed_digits (scaled m e p) p"
| "format_f p (Infinite s) = (if s then ''-inf'' else ''inf'')"
| "format_f p NaN = ''nan''"

text \<open>\<^verbatim>\<open>float(i)\<close> for an integer: 53 bits, nearest, ties to even.\<close>

fun bit_length :: "nat \<Rightarrow> nat" where
  "bit_length n = (if n = 0 then 0 else Suc (bit_length (n div 2)))"

declare bit_length.simps [simp del]

definition float_of_int :: "int \<Rightarrow> exn + pyfloat" where
  "float_of_int i =
     (let a = nat \<bar>i\<bar>; n = bit_length a
      in if n \<le> 53 then Inr (Finite (i < 0) a 0)
         else let sh = n - 53; q = rhe_div a (2 ^ sh)
              in if 2 ^ 1024 \<le> q * 2 ^ sh then Inl OverflowError
                 else Inr (Finite (i < 0) q (int sh)))"

text \<open>\<^verbatim>\<open>int(x)\<close> for a float: truncation towards zero.\<close>

fun int_of_float :: "pyfloat \<Rightarrow> exn + int" where
  "int_of_float (Finite s m e) =
     (let k = (if 0 \<le> e then int m * 2 ^ nat e else int m div 2 ^ nat (- e))
      in Inr (if s then - k else k))"
| "int_of_float (Infinite s) = Inl OverflowError"
| "int_of_float NaN = Inl (ValueError ''cannot convert float NaN to integer'')"

fun conv_d :: "val \<Rightarrow> exn + string" where
  "conv_d (VInt i) = Inr (str_int i)"
| "conv_d (VBool b) = Inr (if b then ''1'' else ''0'')"
| "conv_d (VFloat x) = (case int_of_float x of Inl e \<Rightarrow> Inl e | Inr i \<Rightarrow> Inr (str_int i))"
| "conv_d _ = Inl (TypeError ''%d format: a real number is required'')"

fun conv_f :: "nat \<Rightarrow> val \<Rightarrow> exn + string" where
  "conv_f p (VFloat x) = Inr (format_f p x)"
| "conv_f p (VInt i) = (case float_of_int i of Inl e \<Rightarrow> Inl e | Inr x \<Rightarrow> Inr (format_f p x))"
| "conv_f p (VBool b) = Inr (format_f p (Finite False (if b then 1 else 0) 0))"
| "conv_f p _ = Inl (TypeError ''must be real number'')"

text \<open>
  The scan of the format string, with one value to convert. Modelled: literal text,
  \<open>%%\<close>, \<open>%d\<close>, \<open>%i\<close>, \<open>%f\<close> and \<open>%.Nf\<close>. Flags, widths and the other conversions
  answer \<open>NotModelled\<close>. \<open>used\<close> tells whether the value has been converted already.
\<close>

datatype pstate = Plain | Percent | Precision nat

definition is_digit :: "char \<Rightarrow> bool" where
  "is_digit c = (c \<in> set ''0123456789'')"

definition digit_val :: "char \<Rightarrow> nat" where
  "digit_val c = of_char c - 48"

fun percent_scan :: "pstate \<Rightarrow> bool \<Rightarrow> string \<Rightarrow> val \<Rightarrow> exn + string"
  and percent_emit :: "exn + string \<Rightarrow> bool \<Rightarrow> string \<Rightarrow> val \<Rightarrow> exn + string" where
  "percent_scan Plain used [] v =
     (if used then Inr []
      else Inl (TypeError ''not all arguments converted during string formatting''))"
| "percent_scan Percent used [] v = Inl (ValueError ''incomplete format'')"
| "percent_scan (Precision n) used [] v = Inl (ValueError ''incomplete format'')"
| "percent_scan Plain used (c # cs) v =
     (if c = CHR ''%'' then percent_scan Percent used cs v
      else (case percent_scan Plain used cs v of Inl e \<Rightarrow> Inl e | Inr r \<Rightarrow> Inr (c # r)))"
| "percent_scan Percent used (c # cs) v =
     (if c = CHR ''%'' then
        (case percent_scan Plain used cs v of Inl e \<Rightarrow> Inl e | Inr r \<Rightarrow> Inr (c # r))
      else if c = CHR ''d'' \<or> c = CHR ''i'' then percent_emit (conv_d v) used cs v
      else if c = CHR ''f'' then percent_emit (conv_f 6 v) used cs v
      else if c = CHR ''.'' then percent_scan (Precision 0) used cs v
      else Inl NotModelled)"
| "percent_scan (Precision n) used (c # cs) v =
     (if is_digit c then percent_scan (Precision (10 * n + digit_val c)) used cs v
      else if c = CHR ''f'' then percent_emit (conv_f n v) used cs v
      else Inl NotModelled)"
| "percent_emit r used cs v =
     (if used then Inl (TypeError ''not enough arguments for format string'')
      else (case r of
              Inl e \<Rightarrow> Inl e
            | Inr s \<Rightarrow>
                (case percent_scan Plain True cs v of
                   Inl e \<Rightarrow> Inl e
                 | Inr rest \<Rightarrow> Inr (s @ rest))))"

text \<open>
  \<^verbatim>\<open>spec % inst\<close>. A tuple on the right is the argument list itself, and a list, a
  dict or another object may stand for a mapping of named arguments; a number formatter
  never receives any of these, and they are left out.
\<close>

definition py_percent :: "string \<Rightarrow> val \<Rightarrow> exn + string" where
  "py_percent spec inst =
     (case inst of
        VTuple _ \<Rightarrow> Inl NotModelled
      | VList _ \<Rightarrow> Inl NotModelled
      | VDict _ \<Rightarrow> Inl NotModelled
      | VObj _ _ \<Rightarrow> Inl NotModelled
      | _ \<Rightarrow> percent_scan Plain False spec inst)"

section \<open>Patterns and the parser (class MessageParser)\<close>

text \<open>
  \<^verbatim>\<open>MessageFormatter.__init__(self, fragments)\<close> stores \<^verbatim>\<open>tuple(fragments)\<close>. Its callers
  pass either a list of fragments or, in \<^verbatim>\<open>text_message_formatter\<close>, one fragment
  object; a \<^verbatim>\<open>TextFragment\<close> has no \<^verbatim>\<open>__iter__\<close>, so \<^verbatim>\<open>tuple\<close> raises on it.
\<close>

datatype init_arg = Fragment_list "fragment list" | Fragment_object fragment

fun MessageFormatter_init :: "init_arg \<Rightarrow> exn + fragment list" where
  "MessageFormatter_init (Fragment_list fs) = Inr fs"
| "MessageFormatter_init (Fragment_object f) =
     Inl (TypeError ''TextFragment object is not iterable'')"

definition text_message_formatter :: "string \<Rightarrow> exn + fragment list" where
  "text_message_formatter t = MessageFormatter_init (Fragment_object (TextFragment t))"

text \<open>\<^verbatim>\<open>del options['arg']\<close> on a copy of the part.\<close>

definition del_key :: "string \<Rightarrow> (string \<times> val) list \<Rightarrow> (string \<times> val) list" where
  "del_key k d = filter (\<lambda>(k', _). k' \<noteq> k) d"

text \<open>
  One step of the loop of \<^verbatim>\<open>parse0\<close>: a string, a dict with an \<open>arg\<close> entry (an
  integer, booleans included, gives an \<open>IndexRef\<close>), anything else is refused.
\<close>

fun parse_part :: "val \<Rightarrow> exn + fragment" where
  "parse_part (VStr s) = Inr (TextFragment s)"
| "parse_part (VDict d) =
     (case map_of d ''arg'' of
        None \<Rightarrow> Inl (KeyError (VStr ''arg''))
      | Some (VInt i) \<Rightarrow> Inr (ArgumentFragment (IndexRef i) (del_key ''arg'' d))
      | Some (VBool b) \<Rightarrow> Inr (ArgumentFragment (IndexRef (if b then 1 else 0)) (del_key ''arg'' d))
      | Some a \<Rightarrow> Inr (ArgumentFragment (NameRef a) (del_key ''arg'' d)))"
| "parse_part p = Inl (I18nException (Unsupported_part p) None)"

fun parse0 :: "val list \<Rightarrow> exn + fragment list" where
  "parse0 [] = Inr []"
| "parse0 (p # ps) =
     (case parse_part p of
        Inl e \<Rightarrow> Inl e
      | Inr f \<Rightarrow> (case parse0 ps of Inl e \<Rightarrow> Inl e | Inr fs \<Rightarrow> Inr (f # fs)))"

text \<open>
  \<^verbatim>\<open>MessageParser.parse\<close>. A string is one text fragment, whatever it contains; a
  list or tuple is parsed part by part; iterating a dict yields its keys; any other
  value cannot be iterated.
\<close>

fun parse :: "val \<Rightarrow> exn + fragment list" where
  "parse (VStr s) = MessageFormatter_init (Fragment_list [TextFragment s])"
| "parse (VList ps) =
     (case parse0 ps of
        Inl e \<Rightarrow> Inl (I18nException (Error_parsing (VList ps)) (Some e))
      | Inr fs \<Rightarrow> MessageFormatter_init (Fragment_list fs))"
| "parse (VTuple ps) =
     (case parse0 ps of
        Inl e \<Rightarrow> Inl (I18nException (Error_parsing (VTuple ps)) (Some e))
      | Inr fs \<Rightarrow> MessageFormatter_init (Fragment_list fs))"
| "parse (VDict d) =
     (case parse0 (map (VStr \<circ> fst) d) of
        Inl e \<Rightarrow> Inl (I18nException (Error_parsing (VDict d)) (Some e))
      | Inr fs \<Rightarrow> MessageFormatter_init (Fragment_list fs))"
| "parse m = Inl (I18nException (Error_parsing m) (Some (TypeError ''object is not iterable'')))"

section \<open>Formatter factories and the dispatch (class DefaultFormatterFactory)\<close>

text \<open>
  A factory registered from outside the module (the date factory of
  \<^verbatim>\<open>pdark.i18n.babel\<close>, say): its \<^verbatim>\<open>can_handle\<close> and its \<^verbatim>\<open>create_formatter\<close>, which gives
  the \<^verbatim>\<open>format\<close> method of the new formatter or raises. Such a formatter does not call
  back into the service.
\<close>

record ext_factory =
  ext_can_handle :: "val \<Rightarrow> bool"
  ext_create_formatter :: "string option \<Rightarrow> (string \<times> val) list \<Rightarrow> exn + (val \<Rightarrow> exn + string)"

datatype factory =
    StringFormatterFactory
  | I18nMessageFormatterFactory
  | ListFormatterFactory
  | NumberFormatterFactory
  | ExternalFactory ext_factory

text \<open>
  The formatters with their fields: the ambient locale, and the options (a list
  formatter) or the \<open>plural\<close> option (a number formatter, \<open>VNone\<close> when absent).
\<close>

datatype formatter =
    StringFormatter
  | I18nMessageFormatter "string option"
  | ListFormatter "string option" "(string \<times> val) list"
  | NumberFormatter "string option" val
  | ExternalFormatter "val \<Rightarrow> exn + string"

fun can_handle :: "factory \<Rightarrow> val \<Rightarrow> bool" where
  "can_handle StringFormatterFactory inst = (case inst of VStr _ \<Rightarrow> True | _ \<Rightarrow> False)"
| "can_handle I18nMessageFormatterFactory inst = (case inst of VMsg _ \<Rightarrow> True | _ \<Rightarrow> False)"
| "can_handle ListFormatterFactory inst =
     (case inst of VList _ \<Rightarrow> True | VTuple _ \<Rightarrow> True | _ \<Rightarrow> False)"
| "can_handle NumberFormatterFactory inst =
     (case inst of VInt _ \<Rightarrow> True | VBool _ \<Rightarrow> True | VFloat _ \<Rightarrow> True | _ \<Rightarrow> False)"
| "can_handle (ExternalFactory f) inst = ext_can_handle f inst"

definition has_key :: "(string \<times> val) list \<Rightarrow> string \<Rightarrow> bool" where
  "has_key d k = (map_of d k \<noteq> None)"

text \<open>
  \<^verbatim>\<open>delegate.create_formatter(locale, **options)\<close>. The string and message factories
  take no keyword; the list factory takes any but the names of its own parameters; the
  number factory only \<open>plural\<close>.
\<close>

fun create_formatter :: "factory \<Rightarrow> string option \<Rightarrow> (string \<times> val) list \<Rightarrow> exn + formatter" where
  "create_formatter StringFormatterFactory l options =
     (if options = [] then Inr StringFormatter
      else Inl (TypeError ''create_formatter() got an unexpected keyword argument''))"
| "create_formatter I18nMessageFormatterFactory l options =
     (if options = [] then Inr (I18nMessageFormatter l)
      else Inl (TypeError ''create_formatter() got an unexpected keyword argument''))"
| "create_formatter ListFormatterFactory l options =
     (if has_key options ''self'' \<or> has_key options ''locale'' \<or> has_key options ''ts''
      then Inl (TypeError ''got multiple values for argument'')
      else Inr (ListFormatter l options))"
| "create_formatter NumberFormatterFactory l options =
     (if \<exists>k \<in> set (map fst options). k \<noteq> ''plural''
      then Inl (TypeError ''got an unexpected keyword argument'')
      else Inr (NumberFormatter l (case map_of options ''plural'' of None \<Rightarrow> VNone | Some b \<Rightarrow> b)))"
| "create_formatter (ExternalFactory f) l options =
     (case ext_create_formatter f l options of
        Inl e \<Rightarrow> Inl e
      | Inr fmt \<Rightarrow> Inr (ExternalFormatter fmt))"

text \<open>The loop \<^verbatim>\<open>for delegate in self.delegates: if delegate.can_handle(inst)\<close>.\<close>

fun first_match :: "factory list \<Rightarrow> val \<Rightarrow> factory option" where
  "first_match [] inst = None"
| "first_match (d # ds) inst = (if can_handle d inst then Some d else first_match ds inst)"

section \<open>The translation service and its message provider\<close>

text \<open>
  The two missing-text strategies. The logging one renders the request with
  \<^verbatim>\<open>repr\<close>, and \<^verbatim>\<open>I18NMessage.__repr__\<close> formats its arguments with \<^verbatim>\<open>%r\<close>: the
  strategy carries the function that stands for Python's built-in \<^verbatim>\<open>repr\<close> on
  argument values.
\<close>

datatype strategy = FailOnMissingTextsStrategy | LogMissingTextStrategy "val \<Rightarrow> string"

text \<open>
  The state of one \<^verbatim>\<open>TranslationService\<close> with the objects it owns: the formatter
  factory (\<open>delegates\<close>, \<open>cache\<close>), the message provider (\<open>pattern_cache\<close>, its missing-text
  strategy, the default locale of its fallback strategy) and the warnings logged so far.
\<close>

record service =
  default_locale :: "string option"
  delegates :: "factory list"
  cache :: "pytype \<rightharpoonup> factory"
  provider_default_locale :: "string option"
  pattern_cache :: "string \<rightharpoonup> (string \<rightharpoonup> fragment list)"
  missing_text_strategy :: strategy
  warnings :: "string list"

text \<open>
  \<^verbatim>\<open>TranslationService(default_locale=l)\<close> with the default factory and provider, and
  optionally another missing-text strategy for the provider. \<open>l\<close> is the default locale
  as \<^verbatim>\<open>determine_default_locale\<close> settles it: the argument, or the locale of the system,
  which may be \<open>None\<close>.
\<close>

definition builtin_delegates :: "factory list" where
  "builtin_delegates =
     [StringFormatterFactory, I18nMessageFormatterFactory, ListFormatterFactory,
      NumberFormatterFactory]"

definition TranslationService :: "string option \<Rightarrow> strategy \<Rightarrow> service" where
  "TranslationService l strat =
     \<lparr> default_locale = l, delegates = builtin_delegates, cache = Map.empty,
       provider_default_locale = l, pattern_cache = Map.empty,
       missing_text_strategy = strat, warnings = [] \<rparr>"

text \<open>\<^verbatim>\<open>DefaultFormatterFactory.register(self, *delegates)\<close>.\<close>

definition register :: "service \<Rightarrow> factory list \<Rightarrow> service" where
  "register ts ds = ts\<lparr>delegates := delegates ts @ ds\<rparr>"

text \<open>
  \<^verbatim>\<open>DefaultFormatterFactory.create_formatter(self, locale, inst, options)\<close>, in two
  steps: the factory chosen for the value (from the cache, else by the scan, which
  stores its match), then that factory's \<^verbatim>\<open>create_formatter\<close>.
\<close>

definition choose_delegate :: "service \<Rightarrow> val \<Rightarrow> (exn + factory) \<times> service" where
  "choose_delegate ts inst =
     (case cache ts (type_of inst) of
        Some d \<Rightarrow> (Inr d, ts)
      | None \<Rightarrow>
          (case first_match (delegates ts) inst of
             Some d \<Rightarrow> (Inr d, ts\<lparr>cache := (cache ts)(type_of inst \<mapsto> d)\<rparr>)
           | None \<Rightarrow> (Inl (I18nException (No_factory inst) None), ts)))"

definition dispatch :: "service \<Rightarrow> string option \<Rightarrow> val \<Rightarrow> (string \<times> val) list
    \<Rightarrow> (exn + formatter) \<times> service" where
  "dispatch ts l inst options =
     (case choose_delegate ts inst of
        (Inl e, ts') \<Rightarrow> (Inl e, ts')
      | (Inr d, ts') \<Rightarrow> (create_formatter d l options, ts'))"

text \<open>
  \<^verbatim>\<open>SimpleMessageProvider.register_message(self, key, locale, pattern)\<close>. The pattern
  cache is a \<^verbatim>\<open>defaultdict(dict)\<close>: reading the entry of the locale creates an empty one
  where there was none, before the pattern is parsed.
\<close>

definition register_message :: "service \<Rightarrow> string \<Rightarrow> string \<Rightarrow> val \<Rightarrow> (exn + unit) \<times> service" where
  "register_message ts k l pattern =
     (let keys = (case pattern_cache ts l of None \<Rightarrow> Map.empty | Some keys \<Rightarrow> keys);
          ts0 = ts\<lparr>pattern_cache := (pattern_cache ts)(l \<mapsto> keys)\<rparr>
      in case parse pattern of
           Inl e \<Rightarrow> (Inl e, ts0)
         | Inr fs \<Rightarrow>
             (Inr (), ts0\<lparr>pattern_cache := (pattern_cache ts0)(l \<mapsto> keys(k \<mapsto> fs))\<rparr>))"

definition lookup_single_locale :: "service \<Rightarrow> string \<Rightarrow> string \<Rightarrow> fragment list option" where
  "lookup_single_locale ts k l =
     (case pattern_cache ts l of None \<Rightarrow> None | Some keys \<Rightarrow> keys k)"

fun lookup_chain :: "service \<Rightarrow> string \<Rightarrow> string list \<Rightarrow> fragment list option" where
  "lookup_chain ts k [] = None"
| "lookup_chain ts k (lc # lcs) =
     (case lookup_single_locale ts k lc of
        Some f \<Rightarrow> Some f
      | None \<Rightarrow> lookup_chain ts k lcs)"

text \<open>\<^verbatim>\<open>I18NMessage.__repr__\<close>.\<close>

definition I18NMessage_repr :: "(val \<Rightarrow> string) \<Rightarrow> I18NMessage \<Rightarrow> string" where
  "I18NMessage_repr r m =
     (case msg_locale m of
        None \<Rightarrow>
          ''I18NMessage('' @ key m @ '', '' @ r (VTuple (args m)) @ '', '' @ r (VDict (kwargs m)) @ '')''
      | Some l \<Rightarrow>
          ''I18NMessage('' @ key m @ '', locale='' @ r (VStr l) @ '', '' @ r (VTuple (args m))
            @ '', '' @ r (VDict (kwargs m)) @ '')'')"

text \<open>
  The \<^verbatim>\<open>apply\<close> of the two missing-text strategies. The logging one records its warning
  and then builds its formatter with \<^verbatim>\<open>text_message_formatter\<close>.
\<close>

fun strategy_apply :: "service \<Rightarrow> I18NMessage \<Rightarrow> string option \<Rightarrow> (exn + fragment list) \<times> service" where
  "strategy_apply ts m l =
     (case missing_text_strategy ts of
        FailOnMissingTextsStrategy \<Rightarrow> (Inl (I18nException (Missing_text (key m)) None), ts)
      | LogMissingTextStrategy r \<Rightarrow>
          (text_message_formatter (I18NMessage_repr r m),
           ts\<lparr>warnings := warnings ts @ [key m]\<rparr>))"

text \<open>\<^verbatim>\<open>SimpleMessageProvider.lookup_message(self, i18n_message, locale)\<close>.\<close>

definition lookup_message :: "service \<Rightarrow> I18NMessage \<Rightarrow> string option \<Rightarrow> (exn + fragment list) \<times> service" where
  "lookup_message ts m l =
     (case lookup_chain ts (key m) (LocaleFallbackStrategy_apply (provider_default_locale ts) l) of
        Some f \<Rightarrow> (Inr f, ts)
      | None \<Rightarrow> strategy_apply ts m l)"

section \<open>Rendering (classes TranslationService, MessageFormatter, the fragments and formatters)\<close>

text \<open>
  \<^verbatim>\<open>IndexRef.get\<close> is \<^verbatim>\<open>args[self.index]\<close>, with Python's negative indices and its
  \<^verbatim>\<open>IndexError\<close>; \<^verbatim>\<open>NameRef.get\<close> is \<^verbatim>\<open>kwargs[self.name]\<close>, whose keys are strings, so any
  other hashable name is a \<^verbatim>\<open>KeyError\<close>. A message is not hashable: the class defines
  \<^verbatim>\<open>__eq__\<close> and no \<^verbatim>\<open>__hash__\<close>.
\<close>

fun hashable :: "val \<Rightarrow> bool" where
  "hashable (VList _) = False"
| "hashable (VDict _) = False"
| "hashable (VMsg _) = False"
| "hashable (VTuple xs) = list_all hashable xs"
| "hashable _ = True"

fun IndexRef_get :: "int \<Rightarrow> val list \<Rightarrow> exn + val" where
  "IndexRef_get i xs =
     (if 0 \<le> i then
        (if nat i < length xs then Inr (xs ! nat i) else Inl IndexError)
      else
        (if nat (- i) \<le> length xs then Inr (xs ! (length xs - nat (- i)))
         else Inl IndexError))"

fun NameRef_get :: "val \<Rightarrow> (string \<times> val) list \<Rightarrow> exn + val" where
  "NameRef_get name kw =
     (if \<not> hashable name then Inl (TypeError ''unhashable type'')
      else (case name of
              VStr n \<Rightarrow> (case map_of kw n of None \<Rightarrow> Inl (KeyError name) | Some v \<Rightarrow> Inr v)
            | _ \<Rightarrow> Inl (KeyError name)))"

fun ref_get :: "argref \<Rightarrow> val list \<Rightarrow> (string \<times> val) list \<Rightarrow> exn + val" where
  "ref_get (IndexRef i) xs kw = IndexRef_get i xs"
| "ref_get (NameRef n) xs kw = NameRef_get n kw"

text \<open>The messages the list and number formatters create in their constructors.\<close>

definition empty_message :: I18NMessage where
  "empty_message = I18NMessage ''pdark.i18n.list.empty'' None [] []"

definition comma_message :: I18NMessage where
  "comma_message = I18NMessage ''pdark.i18n.list.comma'' None [] []"

definition and_message :: I18NMessage where
  "and_message = I18NMessage ''pdark.i18n.list.and'' None [] []"

definition or_message :: I18NMessage where
  "or_message = I18NMessage ''pdark.i18n.list.or'' None [] []"

definition int_message :: I18NMessage where
  "int_message = I18NMessage ''pdark.i18n.number.int'' None [] []"

definition float_message :: I18NMessage where
  "float_message = I18NMessage ''pdark.i18n.number.float'' None [] []"

text \<open>\<^verbatim>\<open>ListFormatter.get_tail_joiner\<close>.\<close>

definition get_tail_joiner :: "(string \<times> val) list \<Rightarrow> I18NMessage" where
  "get_tail_joiner options =
     (if map_of options ''type'' = Some (VStr ''or'') then or_message else and_message)"

text \<open>\<^verbatim>\<open>sep.join(strings)\<close>.\<close>

fun str_join :: "string \<Rightarrow> string list \<Rightarrow> string" where
  "str_join sep [] = []"
| "str_join sep [s] = s"
| "str_join sep (s # t # ts) = s @ sep @ str_join sep (t # ts)"

text \<open>\<^verbatim>\<open>isinstance(inst, int)\<close>: a bool is an int.\<close>

fun is_int :: "val \<Rightarrow> bool" where
  "is_int (VInt _) = True"
| "is_int (VBool _) = True"
| "is_int _ = False"

text \<open>\<^verbatim>\<open>inst == k\<close> for an integer literal \<open>k\<close>: numbers compare by value.\<close>

fun num_eq :: "val \<Rightarrow> int \<Rightarrow> bool" where
  "num_eq (VInt i) k = (i = k)"
| "num_eq (VBool b) k = ((if b then 1 else 0) = k)"
| "num_eq (VFloat (Finite s m e)) k =
     (if m = 0 then k = 0
      else if 0 \<le> e then (if s then - 1 else 1) * int m * 2 ^ nat e = k
      else (if s then - 1 else 1) * int m = k * 2 ^ nat (- e))"
| "num_eq _ k = False"

text \<open>The \<^verbatim>\<open>if\<close>/\<^verbatim>\<open>elif\<close> chain of \<^verbatim>\<open>NumberFormatter.format\<close> that picks the tag.\<close>

definition plural_tag :: "val \<Rightarrow> string" where
  "plural_tag inst =
     (if num_eq inst 0 then ''zero''
      else if num_eq inst 1 then ''one''
      else if num_eq inst 2 then ''two''
      else ''other'')"

text \<open>
  The number that a numeric argument stands for: an int itself, a bool as 0 or 1, a
  finite float as its exact value \<open>(-1)^s * m * 2^e\<close>. The infinities, NaN and the values
  that are not numbers have none.
\<close>

fun numeric_value :: "val \<Rightarrow> real option" where
  "numeric_value (VInt i) = Some (of_int i)"
| "numeric_value (VBool b) = Some (if b then 1 else 0)"
| "numeric_value (VFloat (Finite s m e)) = Some ((if s then - 1 else 1) * real m * 2 powi e)"
| "numeric_value _ = None"

text \<open>The first two statements of \<^verbatim>\<open>translate\<close>.\<close>

definition effective_locale :: "service \<Rightarrow> I18NMessage \<Rightarrow> string option \<Rightarrow> string option" where
  "effective_locale ts m l =
     (let l1 = (case l of None \<Rightarrow> msg_locale m | Some x \<Rightarrow> Some x)
      in case l1 of None \<Rightarrow> default_locale ts | Some x \<Rightarrow> Some x)"

text \<open>The size of a message's arguments, for the termination of the rendering.\<close>

definition args_size :: "val list \<Rightarrow> (string \<times> val) list \<Rightarrow> nat" where
  "args_size xs kw = size_list size xs + size_list (size_prod (\<lambda>x. 0) size) kw"

lemma size_mem_less: "x \<in> set xs \<Longrightarrow> size x < size_list size xs"
  by (induction xs) auto

lemma size_map_of_less:
  "map_of kw n = Some v \<Longrightarrow> size v < size_list (size_prod (\<lambda>x. 0) size) kw"
  by (induction kw) (auto split: if_splits)

lemma IndexRef_get_mem: "IndexRef_get i xs = Inr v \<Longrightarrow> v \<in> set xs"
  by (auto split: if_splits)

lemma ref_get_size: "ref_get r xs kw = Inr v \<Longrightarrow> size v < args_size xs kw"
proof (cases r)
  case (IndexRef i)
  assume "ref_get r xs kw = Inr v"
  with IndexRef have "v \<in> set xs"
    using IndexRef_get_mem [of i xs v] by simp
  then show ?thesis
    using size_mem_less [of v xs] by (simp add: args_size_def)
next
  case (NameRef n)
  assume "ref_get r xs kw = Inr v"
  with NameRef obtain k where "map_of kw k = Some v"
    by (auto split: if_splits val.splits option.splits)
  then show ?thesis
    using size_map_of_less [of kw k v] by (simp add: args_size_def)
qed

lemma args_size_msg: "args_size (args m) (kwargs m) < size m"
  by (cases m) (simp add: args_size_def)

lemma builtin_args [simp]:
  "args empty_message = []" "kwargs empty_message = []"
  "args comma_message = []" "kwargs comma_message = []"
  "args int_message = []" "kwargs int_message = []"
  "args float_message = []" "kwargs float_message = []"
  "args (get_tail_joiner options) = []" "kwargs (get_tail_joiner options) = []"
  by (simp_all add: empty_message_def comma_message_def int_message_def float_message_def
      get_tail_joiner_def and_message_def or_message_def)

text \<open>
  The methods that call one another while a message is rendered. Each returns its result
  or the exception it raises, and the service as it has become (the dispatch cache, the
  warnings).

  \<^item> \<open>translate\<close> is \<^verbatim>\<open>TranslationService.translate\<close>: both \<^verbatim>\<open>except\<close> clauses wrap.
    The test \<^verbatim>\<open>formatter is None\<close> never holds: a provider returns a formatter or raises.
  \<^item> \<open>MessageFormatter_format\<close> is the loop over the fragments, the buffer being the
    concatenation; \<open>append_to\<close> is the method of the two fragment classes.
  \<^item> \<open>formatter_format\<close> is \<^verbatim>\<open>formatter.format(inst)\<close> for each formatter class. The cache
    is keyed by the exact type, and a built-in factory accepts by type, so a built-in
    formatter only ever meets a value of its own types; the other equations are there
    for totality.
  \<^item> \<open>ListFormatter_format\<close> is \<^verbatim>\<open>ListFormatter.format\<close>, \<open>process_items\<close> its list
    comprehension over \<^verbatim>\<open>process(item)\<close>; \<open>rev as_strings\<close> splits off the last element.
  \<^item> \<open>NumberFormatter_format\<close> and \<open>get_plural_message\<close> are the methods of
    \<^verbatim>\<open>NumberFormatter\<close>; the plural text is looked up before \<^verbatim>\<open>spec % inst\<close> is computed.
\<close>

function (sequential)
  translate :: "service \<Rightarrow> I18NMessage \<Rightarrow> string option \<Rightarrow> (exn + string) \<times> service"
and MessageFormatter_format :: "service \<Rightarrow> fragment list \<Rightarrow> string option \<Rightarrow> val list
    \<Rightarrow> (string \<times> val) list \<Rightarrow> (exn + string) \<times> service"
and append_to :: "service \<Rightarrow> fragment \<Rightarrow> string option \<Rightarrow> val list
    \<Rightarrow> (string \<times> val) list \<Rightarrow> (exn + string) \<times> service"
and formatter_format :: "service \<Rightarrow> formatter \<Rightarrow> val \<Rightarrow> (exn + string) \<times> service"
and ListFormatter_format :: "service \<Rightarrow> string option \<Rightarrow> (string \<times> val) list \<Rightarrow> val list
    \<Rightarrow> (exn + string) \<times> service"
and process_items :: "service \<Rightarrow> string option \<Rightarrow> val list \<Rightarrow> (exn + string list) \<times> service"
and NumberFormatter_format :: "service \<Rightarrow> string option \<Rightarrow> val \<Rightarrow> val
    \<Rightarrow> (exn + string) \<times> service"
and get_plural_message :: "service \<Rightarrow> string option \<Rightarrow> string \<Rightarrow> string
    \<Rightarrow> (exn + string) \<times> service"
where
  "translate ts m l =
     (let l' = effective_locale ts m l
      in case lookup_message ts m l' of
           (Inl e, ts1) \<Rightarrow> (Inl (I18nException (Error_translating (VMsg m) l') (Some e)), ts1)
         | (Inr fs, ts1) \<Rightarrow>
             (case MessageFormatter_format ts1 fs l' (args m) (kwargs m) of
                (Inl e, ts2) \<Rightarrow>
                  (Inl (I18nException (Error_translating (VMsg m) l')
                     (Some (I18nException (Error_formatting fs (args m) (kwargs m)) (Some e)))),
                   ts2)
              | (Inr result, ts2) \<Rightarrow> (Inr result, ts2)))"
| "MessageFormatter_format ts [] l xs kw = (Inr [], ts)"
| "MessageFormatter_format ts (f # fs) l xs kw =
     (case append_to ts f l xs kw of
        (Inl e, ts1) \<Rightarrow> (Inl e, ts1)
      | (Inr s, ts1) \<Rightarrow>
          (case MessageFormatter_format ts1 fs l xs kw of
             (Inl e, ts2) \<Rightarrow> (Inl e, ts2)
           | (Inr rest, ts2) \<Rightarrow> (Inr (s @ rest), ts2)))"
| "append_to ts (TextFragment t) l xs kw = (Inr t, ts)"
| "append_to ts (ArgumentFragment r options) l xs kw =
     (case ref_get r xs kw of
        Inl e \<Rightarrow> (Inl e, ts)
      | Inr v \<Rightarrow>
          (case dispatch ts l v options of
             (Inl e, ts1) \<Rightarrow> (Inl e, ts1)
           | (Inr fm, ts1) \<Rightarrow> formatter_format ts1 fm v))"
| "formatter_format ts StringFormatter (VStr s) = (Inr s, ts)"
| "formatter_format ts StringFormatter inst = (Inl (TypeError ''string argument expected''), ts)"
| "formatter_format ts (I18nMessageFormatter l) (VMsg m) = translate ts m l"
| "formatter_format ts (I18nMessageFormatter l) inst =
     (Inl (I18nException (Error_translating inst l)
        (Some (AttributeError ''object has no attribute''))), ts)"
| "formatter_format ts (ListFormatter l options) (VList items) =
     ListFormatter_format ts l options items"
| "formatter_format ts (ListFormatter l options) (VTuple items) =
     ListFormatter_format ts l options items"
| "formatter_format ts (ListFormatter l options) inst =
     (Inl (TypeError ''object has no len()''), ts)"
| "formatter_format ts (NumberFormatter l plural) inst = NumberFormatter_format ts l plural inst"
| "formatter_format ts (ExternalFormatter f) inst = (f inst, ts)"
| "ListFormatter_format ts l options items =
     (if length items = 0 then translate ts empty_message l
      else
        (case process_items ts l items of
           (Inl e, ts1) \<Rightarrow> (Inl e, ts1)
         | (Inr as_strings, ts1) \<Rightarrow>
             (if length items = 1 then
                (case as_strings of [] \<Rightarrow> (Inl IndexError, ts1) | s # _ \<Rightarrow> (Inr s, ts1))
              else
                (case rev as_strings of
                   [] \<Rightarrow> (Inl IndexError, ts1)
                 | tail # rhead \<Rightarrow>
                     (case (if 1 < length rhead then
                              (case translate ts1 comma_message l of
                                 (Inl e, ts2) \<Rightarrow> (Inl e, ts2)
                               | (Inr joiner, ts2) \<Rightarrow> (Inr (str_join joiner (rev rhead)), ts2))
                            else
                              (case rev rhead of
                                 [] \<Rightarrow> (Inl IndexError, ts1)
                               | h # _ \<Rightarrow> (Inr h, ts1))) of
                        (Inl e, ts2) \<Rightarrow> (Inl e, ts2)
                      | (Inr head, ts2) \<Rightarrow>
                          (case translate ts2 (get_tail_joiner options) l of
                             (Inl e, ts3) \<Rightarrow> (Inl e, ts3)
                           | (Inr joiner, ts3) \<Rightarrow> (Inr (str_join joiner [head, tail]), ts3)))))))"
| "process_items ts l [] = (Inr [], ts)"
| "process_items ts l (item # items) =
     (case dispatch ts l item [] of
        (Inl e, ts1) \<Rightarrow> (Inl e, ts1)
      | (Inr fm, ts1) \<Rightarrow>
          (case formatter_format ts1 fm item of
             (Inl e, ts2) \<Rightarrow> (Inl e, ts2)
           | (Inr s, ts2) \<Rightarrow>
               (case process_items ts2 l items of
                  (Inl e, ts3) \<Rightarrow> (Inl e, ts3)
                | (Inr ss, ts3) \<Rightarrow> (Inr (s # ss), ts3))))"
| "NumberFormatter_format ts l plural inst =
     (case translate ts (if is_int inst then int_message else float_message) l of
        (Inl e, ts1) \<Rightarrow> (Inl e, ts1)
      | (Inr spec, ts1) \<Rightarrow>
          (if plural = VNone then (py_percent spec inst, ts1)
           else
             (case plural of
                VStr base \<Rightarrow>
                  (case get_plural_message ts1 l base (plural_tag inst) of
                     (Inl e, ts2) \<Rightarrow> (Inl e, ts2)
                   | (Inr t, ts2) \<Rightarrow>
                       (case py_percent spec inst of
                          Inl e \<Rightarrow> (Inl e, ts2)
                        | Inr num \<Rightarrow> (Inr (num @ '' '' @ t), ts2)))
              | _ \<Rightarrow> (Inl (TypeError ''unsupported operand type(s) for +''), ts1))))"
| "get_plural_message ts l base tag =
     (case translate ts (I18NMessage (base @ ''.one'') None [] []) l of
        (Inr t, ts1) \<Rightarrow> (Inr t, ts1)
      | (Inl e, ts1) \<Rightarrow>
          (if is_I18nException e then
             (if tag = ''other'' then (Inl e, ts1)
              else translate ts1 (I18NMessage (base @ ''.other'') None [] []) l)
           else (Inl e, ts1)))"
  by pat_completeness auto
termination
proof (relation "inv_image (less_than <*lex*> less_than) (\<lambda>c. case c of
     Inl (Inl (Inl (ts, m, l))) \<Rightarrow> (2 * args_size (args m) (kwargs m) + 1, 0)
   | Inl (Inl (Inr (ts, fs, l, xs, kw))) \<Rightarrow> (2 * args_size xs kw, length fs + 10)
   | Inl (Inr (Inl (ts, f, l, xs, kw))) \<Rightarrow> (2 * args_size xs kw, 5)
   | Inl (Inr (Inr (ts, fm, v))) \<Rightarrow> (2 * size v + 2, 4)
   | Inr (Inl (Inl (ts, l, options, items))) \<Rightarrow> (2 * size_list size items + 2, 3)
   | Inr (Inl (Inr (ts, l, items))) \<Rightarrow> (2 * size_list size items + 1, 0)
   | Inr (Inr (Inl (ts, l, plural, inst))) \<Rightarrow> (2 * size inst + 2, 3)
   | Inr (Inr (Inr (ts, l, base, tag))) \<Rightarrow> (2, 1::nat))",
   goal_cases)
  case 1
  show ?case by (intro wf_inv_image wf_lex_prod wf_less_than)
next
  case (5 ts r options l xs kw b x y ba)
  then show ?case
    using ref_get_size [of r xs kw b] by auto
next
  case (6 ts l m)
  show ?case
    using args_size_msg [of m] by auto
qed (auto simp: args_size_def)

declare translate.simps [simp del]
declare ListFormatter_format.simps [simp del]
declare NumberFormatter_format.simps [simp del]
declare get_plural_message.simps [simp del]

section \<open>Equality of messages (I18NMessage.__eq__)\<close>

text \<open>
  The method is declared as \<^verbatim>\<open>def __eq__(self)\<close>: it takes no second parameter, and
  its body names a variable \<open>other\<close> that nothing binds. \<open>I18NMessage_eq self others\<close> is a
  call with the further positional arguments \<open>others\<close>; \<^verbatim>\<open>m1 == m2\<close> calls it with
  \<open>[m2]\<close>.
\<close>

definition I18NMessage_eq :: "I18NMessage \<Rightarrow> val list \<Rightarrow> exn + bool" where
  "I18NMessage_eq self others =
     (if others \<noteq> [] then
        Inl (TypeError ''__eq__() takes 1 positional argument but 2 were given'')
      else Inl (NameError ''name other is not defined''))"

definition message_equals :: "I18NMessage \<Rightarrow> I18NMessage \<Rightarrow> exn + bool" where
  "message_equals m1 m2 = I18NMessage_eq m1 [VMsg m2]"

text \<open>
  The fixture of the repository's tests (\<^verbatim>\<open>TestSimple.setUp\<close> in
  \<^verbatim>\<open>tests/test_basics.py\<close>): a service with default locale \<open>en_US\<close> and the messages
  the tests register, in their order.
\<close>

fun register_all :: "service \<Rightarrow> (string \<times> string \<times> val) list \<Rightarrow> (exn + unit) \<times> service" where
  "register_all ts [] = (Inr (), ts)"
| "register_all ts ((k, l, pattern) # rest) =
     (case register_message ts k l pattern of
        (Inl e, ts') \<Rightarrow> (Inl e, ts')
      | (Inr u, ts') \<Rightarrow> register_all ts' rest)"

definition test_messages :: "(string \<times> string \<times> val) list" where
  "test_messages =
     [(''test_basics.color'', ''en'', VStr ''colour''),
      (''test_basics.color'', ''en_US'', VStr ''color''),
      (''test_basics.hello'', ''en'', VList [VStr ''Hello, '', VDict [(''arg'', VStr ''name'')], VStr ''.'']),
      (''test_basics.hello'', ''it'', VList [VStr ''Ciao, '', VDict [(''arg'', VStr ''name'')], VStr ''.'']),
      (''pdark.i18n.list.and'', ''en'', VStr '' and ''),
      (''pdark.i18n.list.and'', ''de_DE'', VStr '' und ''),
      (''pdark.i18n.list.or'', ''en'', VStr '' or ''),
      (''pdark.i18n.list.or'', ''de_DE'', VStr '' oder ''),
      (''pdark.i18n.list.comma'', ''en'', VStr '', ''),
      (''pdark.i18n.list.empty'', ''en'', VStr []),
      (''test_basics.and_list'', ''en'', VList [VDict [(''arg'', VStr ''items'')]]),
      (''test_basics.or_list'', ''en'',
         VList [VDict [(''arg'', VStr ''items''), (''type'', VStr ''or'')]]),
      (''test_basics.number'', ''en'', VList [VDict [(''arg'', VStr ''n'')]]),
      (''pdark.i18n.number.int'', ''en'', VStr ''%d''),
      (''pdark.i18n.number.float'', ''en'', VStr ''%.2f''),
      (''test_basics.plural.one'', ''en'', VStr ''house''),
      (''test_basics.plural.other'', ''en'', VStr ''houses''),
      (''test_basics.plural'', ''en'',
         VList [VDict [(''arg'', VStr ''n''), (''plural'', VStr ''test_basics.plural'')]])]"

definition test_service :: "strategy \<Rightarrow> (exn + unit) \<times> service" where
  "test_service strat = register_all (TranslationService (Some ''en_US'') strat) test_messages"

text \<open>The service that these registrations build, written out.\<close>

definition test_ts :: "strategy \<Rightarrow> service" where
  "test_ts strat =
     \<lparr> default_locale = Some ''en_US'',
       delegates = builtin_delegates,
       cache = Map.empty,
       provider_default_locale = Some ''en_US'',
       pattern_cache =
         [''en_US'' \<mapsto> [''test_basics.color'' \<mapsto> [TextFragment ''color'']],
          ''it'' \<mapsto>
            [''test_basics.hello'' \<mapsto>
               [TextFragment ''Ciao, '', ArgumentFragment (NameRef (VStr ''name'')) [],
                TextFragment ''.'']],
          ''de_DE'' \<mapsto>
            [''pdark.i18n.list.and'' \<mapsto> [TextFragment '' und ''],
             ''pdark.i18n.list.or'' \<mapsto> [TextFragment '' oder '']],
          ''en'' \<mapsto>
            [''test_basics.color'' \<mapsto> [TextFragment ''colour''],
             ''test_basics.hello'' \<mapsto>
               [TextFragment ''Hello, '', ArgumentFragment (NameRef (VStr ''name'')) [],
                TextFragment ''.''],
             ''pdark.i18n.list.and'' \<mapsto> [TextFragment '' and ''],
             ''pdark.i18n.list.or'' \<mapsto> [TextFragment '' or ''],
             ''pdark.i18n.list.comma'' \<mapsto> [TextFragment '', ''],
             ''pdark.i18n.list.empty'' \<mapsto> [TextFragment []],
             ''test_basics.and_list'' \<mapsto> [ArgumentFragment (NameRef (VStr ''items'')) []],
             ''test_basics.or_list'' \<mapsto>
               [ArgumentFragment (NameRef (VStr ''items'')) [(''type'', VStr ''or'')]],
             ''test_basics.number'' \<mapsto> [ArgumentFragment (NameRef (VStr ''n'')) []],
             ''pdark.i18n.number.int'' \<mapsto> [TextFragment ''%d''],
             ''pdark.i18n.number.float'' \<mapsto> [TextFragment ''%.2f''],
             ''test_basics.plural.one'' \<mapsto> [TextFragment ''house''],
             ''test_basics.plural.other'' \<mapsto> [TextFragment ''houses''],
             ''test_basics.plural'' \<mapsto>
               [ArgumentFragment (NameRef (VStr ''n''))
                  [(''plural'', VStr ''test_basics.plural'')]]]],
       missing_text_strategy = strat,
       warnings = [] \<rparr>"

text \<open>
  The requests of those tests, as the \<^verbatim>\<open>@i18n\<close> decorator builds them: the positional
  arguments, and the same values again by parameter name.
\<close>

definition color :: I18NMessage where
  "color = I18NMessage ''test_basics.color'' None [] []"

definition hello :: "val \<Rightarrow> I18NMessage" where
  "hello name = I18NMessage ''test_basics.hello'' None [name] [(''name'', name)]"

definition and_list :: "val list \<Rightarrow> I18NMessage" where
  "and_list items = I18NMessage ''test_basics.and_list'' None items [(''items'', VTuple items)]"

definition or_list :: "val list \<Rightarrow> I18NMessage" where
  "or_list items = I18NMessage ''test_basics.or_list'' None items [(''items'', VTuple items)]"

definition number :: "val \<Rightarrow> I18NMessage" where
  "number n = I18NMessage ''test_basics.number'' None [n] [(''n'', n)]"

definition plural :: "val \<Rightarrow> I18NMessage" where
  "plural n = I18NMessage ''test_basics.plural'' None [n] [(''n'', n)]"

text \<open>The formatter that the fixture holds for \<open>test_basics.hello\<close> in \<open>en\<close>.\<close>

definition hello_fragments :: "fragment list" where
  "hello_fragments =
     [TextFragment ''Hello, '', ArgumentFragment (NameRef (VStr ''name'')) [],
      TextFragment ''.'']"

lemma test_service_eq: "test_service strat = (Inr (), test_ts strat)"
  by (simp add: test_service_def test_messages_def TranslationService_def
      register_message_def del_key_def test_ts_def Let_def)

text \<open>A service with the default locale \<open>en\<close> and the given registrations.\<close>

definition service_with :: "(string \<times> string \<times> val) list \<Rightarrow> service" where
  "service_with msgs =
     snd (register_all (TranslationService (Some ''en'') FailOnMissingTextsStrategy) msgs)"

section \<open>Sequences of registrations and lookups on the dispatch\<close>

text \<open>
  The two operations that change the formatter factory: \<^verbatim>\<open>register\<close>, and a lookup
  (\<^verbatim>\<open>create_formatter\<close> for a value, of which only the choice of the delegate matters
  here). \<open>chosen\<close> is the delegate a lookup uses, \<open>scan_result\<close> what the scan of the
  list alone would answer, \<open>by_type_only\<close> a factory whose \<^verbatim>\<open>can_handle\<close> looks at nothing
  but the type of the value, \<open>memo_sound\<close> a cache that holds scan results.
\<close>

datatype dispatch_op = Register "factory list" | Lookup val

fun apply_op :: "service \<Rightarrow> dispatch_op \<Rightarrow> service" where
  "apply_op ts (Register ds) = register ts ds"
| "apply_op ts (Lookup v) = snd (choose_delegate ts v)"

definition run_ops :: "service \<Rightarrow> dispatch_op list \<Rightarrow> service" where
  "run_ops ts ops = foldl apply_op ts ops"

fun registered :: "dispatch_op list \<Rightarrow> factory list" where
  "registered [] = []"
| "registered (Register ds # ops) = ds @ registered ops"
| "registered (Lookup v # ops) = registered ops"

definition chosen :: "service \<Rightarrow> val \<Rightarrow> exn + factory" where
  "chosen ts v = fst (choose_delegate ts v)"

definition scan_result :: "service \<Rightarrow> val \<Rightarrow> exn + factory" where
  "scan_result ts v =
     (case first_match (delegates ts) v of
        Some d \<Rightarrow> Inr d
      | None \<Rightarrow> Inl (I18nException (No_factory v) None))"

definition by_type_only :: "factory \<Rightarrow> bool" where
  "by_type_only d = (\<forall>v w. type_of v = type_of w \<longrightarrow> can_handle d v = can_handle d w)"


definition memo_sound :: "service \<Rightarrow> bool" where
  "memo_sound ts =
     (\<forall>t d v. cache ts t = Some d \<longrightarrow> type_of v = t \<longrightarrow> first_match (delegates ts) v = Some d)"

text \<open>
  Two factories for the instances of a class \<open>date\<close>: the first accepts one particular
  instance only, the second every instance.
\<close>

definition picky_factory :: factory where
  "picky_factory =
     ExternalFactory \<lparr> ext_can_handle = (\<lambda>v. v = VObj ''date'' ''a''),
                       ext_create_formatter = (\<lambda>l options. Inr (\<lambda>v. Inr ''picky'')) \<rparr>"

definition date_factory :: factory where
  "date_factory =
     ExternalFactory \<lparr> ext_can_handle = (\<lambda>v. type_of v = T_object ''date''),
                       ext_create_formatter = (\<lambda>l options. Inr (\<lambda>v. Inr ''date'')) \<rparr>"

text \<open>A catalog with the integer spec and the \<open>other\<close> form of a plural, but no \<open>one\<close> form.\<close>

definition houses_ts :: service where
  "houses_ts = service_with
     [(''pdark.i18n.number.int'', ''en'', VStr ''%d''),
      (''houses.other'', ''en'', VStr ''houses'')]"


text \<open>
  Reading decimal digits back as a number, and the double nearest to a decimal
  literal: \<open>nearest_double m k p q\<close> says that the double \<open>m / 2^k\<close>, with a mantissa of
  53 bits, lies within half a unit in the last place of \<open>p / q\<close>, so that it is the value
  Python reads for that literal.
\<close>

definition digits_value :: "string \<Rightarrow> nat" where
  "digits_value s = foldl (\<lambda>a c. 10 * a + digit_val c) 0 s"

definition nearest_double :: "nat \<Rightarrow> nat \<Rightarrow> int \<Rightarrow> int \<Rightarrow> bool" where
  "nearest_double m k p q =
     (2 ^ 52 \<le> m \<and> m < 2 ^ 53 \<and> 0 < q \<and> 2 * \<bar>int m * q - p * 2 ^ k\<bar> \<le> q)"

text \<open>The equations that evaluate a translation on a concrete service.\<close>

lemmas eval_defs = translate.simps ListFormatter_format.simps NumberFormatter_format.simps
  get_plural_message.simps test_ts_def lookup_message_def LocaleFallbackStrategy_apply_def
  split_locale.simps Let_def effective_locale_def lookup_single_locale_def dispatch_def
  choose_delegate_def builtin_delegates_def has_key_def py_percent_def str_int_def
  decimal.simps digit_char_def is_digit_def digit_val_def scaled_def fixed_digits_def
  rhe_div_def plural_tag_def empty_message_def comma_message_def and_message_def
  or_message_def int_message_def float_message_def get_tail_joiner_def
  color_def hello_def and_list_def or_list_def number_def plural_def with_locale_def
  text_message_formatter_def

section \<open>The fallback chain\<close>

lemma split_on_ne: "split_on c s \<noteq> []"
  by (induction s) (auto split: list.splits)

lemma split_on_notin: "c \<notin> set s \<Longrightarrow> split_on c s = [s]"
  by (induction s) auto

lemma split_on_append: "split_on c (a @ c # b) = split_on c a @ split_on c b"
  by (induction a) (auto split: list.splits simp: split_on_ne)

lemma join_split: "join_with c (split_on c s) = s"
proof (induction s)
  case Nil
  show ?case by simp
next
  case (Cons x s)
  show ?case
  proof (cases "split_on c s")
    case Nil
    then show ?thesis using split_on_ne [of c s] by simp
  next
    case (Cons y ys)
    with Cons.IH show ?thesis
      by (cases ys) auto
  qed
qed

lemma rfind_neg: "rfind s c < 0 \<longleftrightarrow> c \<notin> set s"
proof (induction s)
  case Nil
  show ?case by simp
next
  case (Cons x s)
  then show ?case
    using rfind_lower [of s c] by (auto simp: Let_def)
qed

lemma rfind_pos:
  "0 \<le> rfind s c \<Longrightarrow> \<exists>b. s = take (nat (rfind s c)) s @ c # b \<and> c \<notin> set b"
proof (induction s)
  case Nil
  then show ?case by simp
next
  case (Cons x s)
  show ?case
  proof (cases "0 \<le> rfind s c")
    case True
    with Cons.IH obtain b where b: "s = take (nat (rfind s c)) s @ c # b" "c \<notin> set b"
      by blast
    from True have "nat (rfind (x # s) c) = Suc (nat (rfind s c))"
      by (simp add: Let_def nat_add_distrib)
    with b show ?thesis
      by (metis append_Cons take_Suc_Cons)
  next
    case False
    with Cons.prems have "x = c" and "rfind (x # s) c = 0"
      by (auto simp: Let_def split: if_splits)
    moreover from False have "c \<notin> set s"
      using rfind_neg [of s c] by simp
    ultimately show ?thesis by simp
  qed
qed

lemma truncations_plain: "CHR ''_'' \<notin> set s \<Longrightarrow> truncations s = [s]"
  by (simp add: truncations_def split_on_notin)

lemma truncations_cut:
  assumes "CHR ''_'' \<notin> set b"
  shows "truncations (a @ CHR ''_'' # b) = (a @ CHR ''_'' # b) # truncations a"
proof -
  let ?c = "CHR ''_''"
  let ?n = "length (split_on ?c a)"
  have sp: "split_on ?c (a @ ?c # b) = split_on ?c a @ [b]"
    using assms by (simp add: split_on_append split_on_notin)
  have "truncations (a @ ?c # b)
      = map (\<lambda>k. join_with ?c (take k (split_on ?c a @ [b]))) (rev [1 ..< Suc (Suc ?n)])"
    by (simp add: truncations_def sp)
  also have "\<dots> = join_with ?c (split_on ?c a @ [b])
      # map (\<lambda>k. join_with ?c (take k (split_on ?c a @ [b]))) (rev [1 ..< Suc ?n])"
    by simp
  also have "join_with ?c (split_on ?c a @ [b]) = a @ ?c # b"
    using join_split [of ?c "a @ ?c # b"] by (simp add: sp)
  also have "map (\<lambda>k. join_with ?c (take k (split_on ?c a @ [b]))) (rev [1 ..< Suc ?n])
      = map (\<lambda>k. join_with ?c (take k (split_on ?c a))) (rev [1 ..< Suc ?n])"
    by (rule map_cong) auto
  finally show ?thesis
    by (simp add: truncations_def)
qed

lemma split_locale_truncations: "split_locale acc (Some s) = acc @ truncations s"
proof (induction s arbitrary: acc rule: length_induct)
  case (1 s)
  show ?case
  proof (cases "rfind s (CHR ''_'') < 0")
    case True
    then show ?thesis
      by (simp add: split_locale.simps(2) truncations_plain rfind_neg)
  next
    case False
    then obtain b where b: "s = take (nat (rfind s (CHR ''_''))) s @ CHR ''_'' # b"
        "CHR ''_'' \<notin> set b"
      using rfind_pos [of s "CHR ''_''"] by auto
    let ?a = "take (nat (rfind s (CHR ''_''))) s"
    have "length ?a < length s"
      using False rfind_upper [of s "CHR ''_''"] by simp
    with 1 have "split_locale (acc @ [s]) (Some ?a) = (acc @ [s]) @ truncations ?a"
      by blast
    moreover have "truncations s = s # truncations ?a"
      using truncations_cut [OF b(2), of ?a] b(1) by simp
    ultimately show ?thesis
      using False by (simp add: split_locale.simps(2) [of acc s] Let_def)
  qed
qed

lemma truncations_examples:
  "truncations ''de_CH'' = [''de_CH'', ''de'']"
  "truncations ''zh_Hant_TW'' = [''zh_Hant_TW'', ''zh_Hant'', ''zh'']"
  "truncations ''en'' = [''en'']"
  by (simp_all add: truncations_def)

text \<open>
  C4. For every default and requested locale string, \<^verbatim>\<open>LocaleFallbackStrategy.apply\<close>
  returns the truncations of the requested locale at its underscores, most specific
  first, then those of the default locale, and removes no duplicate: default \<open>en_US\<close>
  and requested \<open>de_CH\<close> give \<open>de_CH, de, en_US, en\<close>; default and requested \<open>en\<close>
  give \<open>en, en\<close>.
\<close>

theorem fallback_chain_is_truncations:
  "LocaleFallbackStrategy_apply (Some d) (Some r) = truncations r @ truncations d
   \<and> LocaleFallbackStrategy_apply (Some ''en_US'') (Some ''de_CH'')
       = [''de_CH'', ''de'', ''en_US'', ''en'']
   \<and> LocaleFallbackStrategy_apply (Some ''en'') (Some ''en'') = [''en'', ''en'']"
  by (simp add: LocaleFallbackStrategy_apply_def split_locale_truncations truncations_def)

section \<open>The locale of a nested request\<close>

lemma strategy_apply_with_locale:
  "fst (strategy_apply ts (with_locale m p) l) = fst (strategy_apply ts m l)
   \<and> snd (strategy_apply ts (with_locale m p) l) = snd (strategy_apply ts m l)"
  by (simp add: with_locale_def text_message_formatter_def split: strategy.splits)

lemma lookup_message_with_locale:
  "lookup_message ts (with_locale m p) l = lookup_message ts m l"
  using strategy_apply_with_locale [of ts m p l]
  by (simp add: lookup_message_def with_locale_def prod_eq_iff split: option.splits)

lemma translate_with_locale:
  "(fst (translate ts (with_locale m p) (Some a)) = Inr s)
     = (fst (translate ts m (Some a)) = Inr s)
   \<and> snd (translate ts (with_locale m p) (Some a)) = snd (translate ts m (Some a))"
  by (simp add: translate.simps effective_locale_def lookup_message_with_locale Let_def)
     (simp add: with_locale_def split: prod.splits sum.splits)

text \<open>
  C1, as the code has it. Where a pattern references an argument that is itself a
  message request, the fragment hands it to \<open>translate\<close> with the ambient locale as the
  explicit locale argument. So with an ambient locale the nested request is translated
  at the ambient locale, and its text does not depend on its own preferred locale;
  the preferred locale (then the service default) is used only when the ambient
  locale is \<open>None\<close>.
\<close>

theorem nested_request_uses_ambient_locale:
  assumes "ref_get r xs kw = Inr (VMsg m)"
    and "choose_delegate ts (VMsg m) = (Inr I18nMessageFormatterFactory, ts')"
  shows "append_to ts (ArgumentFragment r []) l xs kw = translate ts' m l
    \<and> effective_locale ts' m (Some a) = Some a
    \<and> effective_locale ts' m None
        = (case msg_locale m of Some p \<Rightarrow> Some p | None \<Rightarrow> default_locale ts')
    \<and> (fst (translate ts' (with_locale m p) (Some a)) = Inr s)
        = (fst (translate ts' m (Some a)) = Inr s)"
  using assms translate_with_locale [of ts' m p a s]
  by (simp add: dispatch_def effective_locale_def split: option.splits)

text \<open>
  C1 as stated fails: the nested request prefers \<open>en\<close>, where it reads \<open>colour\<close>, and
  inside a request translated at \<open>en_US\<close> it is rendered \<open>color\<close>.
\<close>

theorem nested_request_own_locale_counterexample:
  "fst (translate (test_ts FailOnMissingTextsStrategy)
          (hello (VMsg (with_locale color (Some ''en'')))) (Some ''en_US''))
     = Inr ''Hello, color.''
   \<and> fst (translate (test_ts FailOnMissingTextsStrategy) (with_locale color (Some ''en'')) None)
     = Inr ''colour''
   \<and> fst (translate (test_ts FailOnMissingTextsStrategy)
          (hello (VMsg (with_locale color (Some ''en'')))) (Some ''en_US''))
     \<noteq> Inr ''Hello, colour.''"
  by (simp add: eval_defs)

theorem nested_request_uses_ambient_locale_witness:
  "append_to (test_ts FailOnMissingTextsStrategy)
      (ArgumentFragment (NameRef (VStr ''name'')) []) (Some ''en_US'')
      [VMsg (with_locale color (Some ''en''))]
      [(''name'', VMsg (with_locale color (Some ''en'')))]
    = translate
        ((test_ts FailOnMissingTextsStrategy)
           \<lparr>cache := [T_I18NMessage \<mapsto> I18nMessageFormatterFactory]\<rparr>)
        (with_locale color (Some ''en'')) (Some ''en_US'')
   \<and> effective_locale
        ((test_ts FailOnMissingTextsStrategy)
           \<lparr>cache := [T_I18NMessage \<mapsto> I18nMessageFormatterFactory]\<rparr>)
        (with_locale color (Some ''en'')) (Some ''en_US'') = Some ''en_US''"
proof -
  let ?ts = "test_ts FailOnMissingTextsStrategy"
  let ?m = "with_locale color (Some ''en'')"
  have r: "ref_get (NameRef (VStr ''name'')) [VMsg ?m] [(''name'', VMsg ?m)] = Inr (VMsg ?m)"
    by simp
  have c: "choose_delegate ?ts (VMsg ?m)
      = (Inr I18nMessageFormatterFactory,
         ?ts\<lparr>cache := [T_I18NMessage \<mapsto> I18nMessageFormatterFactory]\<rparr>)"
    by (simp add: choose_delegate_def test_ts_def builtin_delegates_def)
  show ?thesis
    using nested_request_uses_ambient_locale [OF r c, of "Some ''en_US''" "''en_US''"]
    by simp
qed

section \<open>The logging missing-text strategy\<close>

text \<open>
  C2. With the Log-And-Substitute strategy, \<open>translate\<close> on a request whose key has no
  entry along the fallback chain should log a warning and return the debug rendering
  of the request. The code logs the warning and then raises: \<^verbatim>\<open>text_message_formatter\<close>
  passes a fragment where a sequence of fragments is expected, and \<open>translate\<close> wraps the
  \<^verbatim>\<open>TypeError\<close>.
\<close>

theorem log_strategy_raises:
  assumes "missing_text_strategy ts = LogMissingTextStrategy r"
    and "lookup_chain ts (key m)
           (LocaleFallbackStrategy_apply (provider_default_locale ts) (effective_locale ts m l))
         = None"
  shows "translate ts m l =
     (Inl (I18nException (Error_translating (VMsg m) (effective_locale ts m l))
            (Some (TypeError ''TextFragment object is not iterable''))),
      ts\<lparr>warnings := warnings ts @ [key m]\<rparr>)"
  using assms
  by (simp add: translate.simps lookup_message_def text_message_formatter_def Let_def)

theorem log_strategy_raises_witness:
  "\<forall>r. translate (test_ts (LogMissingTextStrategy r)) (I18NMessage ''missing'' None [] []) None =
     (Inl (I18nException
            (Error_translating (VMsg (I18NMessage ''missing'' None [] [])) (Some ''en_US''))
            (Some (TypeError ''TextFragment object is not iterable''))),
      (test_ts (LogMissingTextStrategy r))\<lparr>warnings := [''missing'']\<rparr>)"
proof
  fix r
  let ?ts = "test_ts (LogMissingTextStrategy r)"
  let ?m = "I18NMessage ''missing'' None [] []"
  have s: "missing_text_strategy ?ts = LogMissingTextStrategy r"
    by (simp add: test_ts_def)
  have e: "effective_locale ?ts ?m None = Some ''en_US''"
    by (simp add: effective_locale_def test_ts_def)
  have c: "lookup_chain ?ts (key ?m)
      (LocaleFallbackStrategy_apply (provider_default_locale ?ts) (effective_locale ?ts ?m None))
      = None"
    by (simp add: e) (simp add: test_ts_def LocaleFallbackStrategy_apply_def split_locale.simps
        Let_def lookup_single_locale_def)
  have w: "warnings ?ts = []"
    by (simp add: test_ts_def)
  show "translate ?ts ?m None =
     (Inl (I18nException (Error_translating (VMsg ?m) (Some ''en_US''))
            (Some (TypeError ''TextFragment object is not iterable''))),
      ?ts\<lparr>warnings := [''missing'']\<rparr>)"
    using log_strategy_raises [OF s c] by (simp add: e w)
qed

section \<open>The plural form\<close>

lemma translate_error_class:
  "translate ts m l = (Inl e, ts') \<Longrightarrow> is_I18nException e"
  by (auto simp: translate.simps Let_def split: prod.splits sum.splits)

lemma get_plural_message_eq:
  "get_plural_message ts l b tag =
     (case translate ts (I18NMessage (b @ ''.one'') None [] []) l of
        (Inr t, ts1) \<Rightarrow> (Inr t, ts1)
      | (Inl e, ts1) \<Rightarrow>
          (if tag = ''other'' then (Inl e, ts1)
           else translate ts1 (I18NMessage (b @ ''.other'') None [] []) l))"
  by (auto simp: get_plural_message.simps split: prod.splits sum.splits
      dest: translate_error_class)

text \<open>
  \<^verbatim>\<open>inst == k\<close> compares the numbers: \<open>num_eq\<close> holds exactly when the number that the
  value stands for is \<open>k\<close>.
\<close>

lemma float_eq_int:
  "num_eq (VFloat (Finite s m e)) k
     \<longleftrightarrow> (if s then - 1 else 1) * real m * 2 powi e = of_int k"
proof (cases "m = 0")
  case True
  then show ?thesis by simp
next
  case m: False
  let ?a = "(if s then - 1 else 1) * int m"
  have a: "(if s then - 1 else 1) * real m = of_int ?a" by simp
  show ?thesis
  proof (cases "0 \<le> e")
    case True
    then have p: "(2::real) powi e = of_int (2 ^ nat e)"
      by (simp add: power_int_def)
    have "(of_int ?a * of_int (2 ^ nat e) = (of_int k :: real)) = (?a * 2 ^ nat e = k)"
      by (simp only: of_int_mult [symmetric] of_int_eq_iff)
    with m True show ?thesis
      by (simp only: a p num_eq.simps if_False if_True)
  next
    case False
    then have p: "(2::real) powi e = inverse (of_int (2 ^ nat (- e)))"
      by (simp add: power_int_def power_one_over inverse_eq_divide)
    have nz: "(of_int (2 ^ nat (- e)) :: real) \<noteq> 0" by simp
    have "(of_int ?a * inverse (of_int (2 ^ nat (- e))) = (of_int k :: real))
        = (of_int ?a = (of_int k :: real) * of_int (2 ^ nat (- e)))"
      using nz by (simp add: field_simps)
    also have "\<dots> = (?a = k * 2 ^ nat (- e))"
      by (simp only: of_int_mult [symmetric] of_int_eq_iff)
    finally show ?thesis
      using m False by (simp only: a p num_eq.simps if_False if_True)
  qed
qed

lemma num_eq_value:
  "numeric_value inst = Some x \<Longrightarrow> num_eq inst k \<longleftrightarrow> x = of_int k"
proof (cases inst)
  case (VFloat f)
  assume "numeric_value inst = Some x"
  with VFloat show ?thesis
    using float_eq_int by (cases f) auto
qed auto

lemma plural_tag_value:
  "numeric_value inst = Some x \<Longrightarrow>
   plural_tag inst = (if x = 0 then ''zero'' else if x = 1 then ''one''
                      else if x = 2 then ''two'' else ''other'')"
  using num_eq_value [of inst x 0] num_eq_value [of inst x 1] num_eq_value [of inst x 2]
  by (simp add: plural_tag_def)

lemma plural_tag_nonfinite:
  "plural_tag (VFloat (Infinite s)) = ''other''" "plural_tag (VFloat NaN) = ''other''"
  by (simp_all add: plural_tag_def)


text \<open>
  C3. For every numeric argument (an int, a bool, a float) the tag is \<open>zero\<close>, \<open>one\<close>,
  \<open>two\<close> when its number is 0, 1, 2 and \<open>other\<close> otherwise, also for the infinities and
  NaN. The plural text is looked up under \<open>b.one\<close> first, whatever the tag; when that
  fails, the failure is raised again if the tag is \<open>other\<close>, and \<open>b.other\<close> is looked up if
  it is not. The result is the number as the spec message formats it, a space, and the
  plural text.
\<close>

theorem plural_lookup_order:
  "(numeric_value inst = Some x
      \<longrightarrow> plural_tag inst
          = (if x = 0 then ''zero'' else if x = 1 then ''one'' else if x = 2 then ''two''
             else ''other''))
   \<and> plural_tag (VFloat (Infinite s)) = ''other''
   \<and> plural_tag (VFloat NaN) = ''other''
   \<and> get_plural_message ts l b tag =
       (case translate ts (I18NMessage (b @ ''.one'') None [] []) l of
          (Inr t, tsa) \<Rightarrow> (Inr t, tsa)
        | (Inl e, tsa) \<Rightarrow>
            (if tag = ''other'' then (Inl e, tsa)
             else translate tsa (I18NMessage (b @ ''.other'') None [] []) l))
   \<and> (translate ts (if is_int inst then int_message else float_message) l = (Inr spec, tsb)
        \<longrightarrow> get_plural_message tsb l b (plural_tag inst) = (Inr t, tsc)
        \<longrightarrow> py_percent spec inst = Inr num
        \<longrightarrow> NumberFormatter_format ts l (VStr b) inst = (Inr (num @ '' '' @ t), tsc))"
proof (intro conjI impI)
  assume "numeric_value inst = Some x"
  then show "plural_tag inst
      = (if x = 0 then ''zero'' else if x = 1 then ''one'' else if x = 2 then ''two''
         else ''other'')"
    by (rule plural_tag_value)
next
  show "get_plural_message ts l b tag =
       (case translate ts (I18NMessage (b @ ''.one'') None [] []) l of
          (Inr t, tsa) \<Rightarrow> (Inr t, tsa)
        | (Inl e, tsa) \<Rightarrow>
            (if tag = ''other'' then (Inl e, tsa)
             else translate tsa (I18NMessage (b @ ''.other'') None [] []) l))"
    by (rule get_plural_message_eq)
next
  assume "translate ts (if is_int inst then int_message else float_message) l = (Inr spec, tsb)"
    and "get_plural_message tsb l b (plural_tag inst) = (Inr t, tsc)"
    and "py_percent spec inst = Inr num"
  then show "NumberFormatter_format ts l (VStr b) inst = (Inr (num @ '' '' @ t), tsc)"
    by (simp add: NumberFormatter_format.simps)
qed (simp_all add: plural_tag_nonfinite)

lemma houses_ts_eq:
  "houses_ts =
     \<lparr> default_locale = Some ''en'', delegates = builtin_delegates, cache = Map.empty,
       provider_default_locale = Some ''en'',
       pattern_cache =
         [''en'' \<mapsto> [''pdark.i18n.number.int'' \<mapsto> [TextFragment ''%d''],
                    ''houses.other'' \<mapsto> [TextFragment ''houses'']]],
       missing_text_strategy = FailOnMissingTextsStrategy, warnings = [] \<rparr>"
  by (simp add: houses_ts_def service_with_def TranslationService_def register_message_def
      Let_def)

theorem plural_lookup_order_witness:
  "plural_tag (VInt 0) = ''zero''
   \<and> plural_tag (VInt 1) = ''one''
   \<and> plural_tag (VInt 2) = ''two''
   \<and> plural_tag (VInt 10) = ''other''
   \<and> plural_tag (VInt (- 1)) = ''other''
   \<and> plural_tag (VBool True) = ''one''
   \<and> plural_tag (VBool False) = ''zero''
   \<and> plural_tag (VFloat (Finite False 1 0)) = ''one''
   \<and> plural_tag (VFloat (Finite True 0 0)) = ''zero''
   \<and> plural_tag (VFloat (Finite False 4503599627370496 (- 51))) = ''two''
   \<and> plural_tag (VFloat (Finite False 3 (- 1))) = ''other''
   \<and> get_plural_message houses_ts None ''houses'' ''two'' = (Inr ''houses'', houses_ts)
   \<and> NumberFormatter_format houses_ts None (VStr ''houses'') (VInt 2)
       = (Inr ''2 houses'', houses_ts)
   \<and> get_plural_message houses_ts None ''houses'' ''other''
       = (Inl (I18nException
                (Error_translating (VMsg (I18NMessage ''houses.one'' None [] [])) (Some ''en''))
                (Some (I18nException (Missing_text ''houses.one'') None))),
          houses_ts)
   \<and> NumberFormatter_format (test_ts FailOnMissingTextsStrategy) None
         (VStr ''test_basics.plural'') (VInt 10)
       = (Inr ''10 house'', test_ts FailOnMissingTextsStrategy)"
proof -
  let ?one = "I18NMessage ''houses.one'' None [] []"
  let ?other = "I18NMessage ''houses.other'' None [] []"
  let ?t = "test_ts FailOnMissingTextsStrategy"
  have one: "translate houses_ts ?one None
      = (Inl (I18nException (Error_translating (VMsg ?one) (Some ''en''))
                (Some (I18nException (Missing_text ''houses.one'') None))), houses_ts)"
    by (simp add: houses_ts_eq translate.simps lookup_message_def effective_locale_def
        LocaleFallbackStrategy_apply_def split_locale.simps lookup_single_locale_def Let_def)
  have other: "translate houses_ts ?other None = (Inr ''houses'', houses_ts)"
    by (simp add: houses_ts_eq translate.simps lookup_message_def effective_locale_def
        LocaleFallbackStrategy_apply_def split_locale.simps lookup_single_locale_def Let_def)
  have spec: "translate houses_ts (if is_int (VInt 2) then int_message else float_message) None
      = (Inr ''%d'', houses_ts)"
    by (simp add: houses_ts_eq translate.simps lookup_message_def effective_locale_def
        LocaleFallbackStrategy_apply_def split_locale.simps lookup_single_locale_def Let_def
        int_message_def)
  have num: "py_percent ''%d'' (VInt 2) = Inr ''2''"
    by (simp add: eval_defs)
  note tg = plural_lookup_order [THEN conjunct1, rule_format]
  have i0: "plural_tag (VInt 0) = ''zero''"
    using tg [of "VInt 0" 0] by simp
  have i1: "plural_tag (VInt 1) = ''one''"
    using tg [of "VInt 1" 1] by simp
  have i2: "plural_tag (VInt 2) = ''two''"
    using tg [of "VInt 2" 2] by simp
  have i10: "plural_tag (VInt 10) = ''other''"
    using tg [of "VInt 10" 10] by simp
  have im: "plural_tag (VInt (- 1)) = ''other''"
    using tg [of "VInt (- 1)" "- 1"] by simp
  have bt: "plural_tag (VBool True) = ''one''"
    using tg [of "VBool True" 1] by simp
  have bf: "plural_tag (VBool False) = ''zero''"
    using tg [of "VBool False" 0] by simp
  have f1: "plural_tag (VFloat (Finite False 1 0)) = ''one''"
    using tg [of "VFloat (Finite False 1 0)" 1] by simp
  have f0: "plural_tag (VFloat (Finite True 0 0)) = ''zero''"
    using tg [of "VFloat (Finite True 0 0)" 0] by simp
  have f2: "plural_tag (VFloat (Finite False 4503599627370496 (- 51))) = ''two''"
    using tg [of "VFloat (Finite False 4503599627370496 (- 51))" 2]
    by (simp add: power_int_def field_simps)
  have f15: "plural_tag (VFloat (Finite False 3 (- 1))) = ''other''"
    using tg [of "VFloat (Finite False 3 (- 1))" "3 / 2"]
    by (simp add: power_int_def)
  note th = plural_lookup_order [where inst = "VInt 2" and x = 2 and ts = houses_ts
      and l = None and b = "''houses''" and spec = "''%d''" and tsb = houses_ts
      and t = "''houses''" and tsc = houses_ts and num = "''2''"]
  have g2: "get_plural_message houses_ts None ''houses'' ''two'' = (Inr ''houses'', houses_ts)"
    using th [of _ "''two''"] by (simp add: one other)
  have g10: "get_plural_message houses_ts None ''houses'' ''other''
      = (Inl (I18nException (Error_translating (VMsg ?one) (Some ''en''))
                (Some (I18nException (Missing_text ''houses.one'') None))), houses_ts)"
    using th [of _ "''other''"] by (simp add: one)
  have n2: "NumberFormatter_format houses_ts None (VStr ''houses'') (VInt 2)
      = (Inr ''2 houses'', houses_ts)"
    using th [of _ "''two''"] spec g2 num i2 by simp
  have n10: "NumberFormatter_format ?t None (VStr ''test_basics.plural'') (VInt 10)
      = (Inr ''10 house'', ?t)"
    by (simp add: eval_defs)
  from i0 i1 i2 i10 im bt bf f1 f0 f2 f15 g2 n2 g10 n10 show ?thesis by simp
qed

section \<open>The error at the boundary of translate\<close>

text \<open>
  C5. Whatever the request, the locale argument and the catalog: when the lookup fails
  with \<open>e\<close>, \<open>translate\<close> raises the wrapping exception with the request, the effective
  locale and \<open>e\<close> as its cause; when the rendering fails with \<open>e\<close>, it raises the wrapping
  exception with the request, the effective locale and, as its cause, the formatting
  exception that \<open>e\<close> caused. Every exception that \<open>translate\<close> raises is one of these two,
  so no exception of the lookup or the rendering leaves it unwrapped.
\<close>

theorem translate_raises_only_wrapped:
  "(lookup_message ts m (effective_locale ts m l) = (Inl ea, tsa)
      \<longrightarrow> translate ts m l
          = (Inl (I18nException (Error_translating (VMsg m) (effective_locale ts m l)) (Some ea)),
             tsa))
   \<and> (lookup_message ts m (effective_locale ts m l) = (Inr fs, tsb)
      \<longrightarrow> MessageFormatter_format tsb fs (effective_locale ts m l) (args m) (kwargs m)
            = (Inl eb, tsc)
      \<longrightarrow> translate ts m l
          = (Inl (I18nException (Error_translating (VMsg m) (effective_locale ts m l))
                   (Some (I18nException (Error_formatting fs (args m) (kwargs m)) (Some eb)))),
             tsc))
   \<and> (translate ts m l = (Inl x, tsd)
      \<longrightarrow> (\<exists>c. x = I18nException (Error_translating (VMsg m) (effective_locale ts m l)) (Some c)
              \<and> (lookup_message ts m (effective_locale ts m l) = (Inl c, tsd)
                  \<or> (\<exists>fsa tse ec.
                        lookup_message ts m (effective_locale ts m l) = (Inr fsa, tse)
                      \<and> MessageFormatter_format tse fsa (effective_locale ts m l) (args m)
                            (kwargs m)
                          = (Inl ec, tsd)
                      \<and> c = I18nException (Error_formatting fsa (args m) (kwargs m))
                              (Some ec)))))"
  by (auto simp: translate.simps Let_def split: prod.splits sum.splits)

theorem translate_raises_only_wrapped_witness:
  "translate (test_ts FailOnMissingTextsStrategy) (I18NMessage ''missing'' None [] []) None
     = (Inl (I18nException
          (Error_translating (VMsg (I18NMessage ''missing'' None [] [])) (Some ''en_US''))
          (Some (I18nException (Missing_text ''missing'') None))),
        test_ts FailOnMissingTextsStrategy)
   \<and> translate (test_ts FailOnMissingTextsStrategy)
        (I18NMessage ''test_basics.hello'' None [] []) None
     = (Inl (I18nException
          (Error_translating (VMsg (I18NMessage ''test_basics.hello'' None [] []))
             (Some ''en_US''))
          (Some (I18nException (Error_formatting hello_fragments [] [])
             (Some (KeyError (VStr ''name'')))))),
        test_ts FailOnMissingTextsStrategy)
   \<and> MessageFormatter_format (test_ts FailOnMissingTextsStrategy) hello_fragments
        (Some ''en_US'') [VNone] [(''name'', VNone)]
     = (Inl (I18nException (No_factory VNone) None), test_ts FailOnMissingTextsStrategy)"
proof -
  let ?t = "test_ts FailOnMissingTextsStrategy"
  let ?missing = "I18NMessage ''missing'' None [] []"
  let ?bare = "I18NMessage ''test_basics.hello'' None [] []"
  have la: "lookup_message ?t ?missing (effective_locale ?t ?missing None)
      = (Inl (I18nException (Missing_text ''missing'') None), ?t)"
    by (simp add: eval_defs)
  have lb: "lookup_message ?t ?bare (effective_locale ?t ?bare None) = (Inr hello_fragments, ?t)"
    by (simp add: eval_defs hello_fragments_def)
  have fb: "MessageFormatter_format ?t hello_fragments (effective_locale ?t ?bare None)
        (args ?bare) (kwargs ?bare)
      = (Inl (KeyError (VStr ''name'')), ?t)"
    by (simp add: hello_fragments_def)
  have lc: "lookup_message ?t (hello VNone) (effective_locale ?t (hello VNone) None)
      = (Inr hello_fragments, ?t)"
    by (simp add: eval_defs hello_fragments_def)
  have tc: "translate ?t (hello VNone) None
      = (Inl (I18nException (Error_translating (VMsg (hello VNone)) (Some ''en_US''))
           (Some (I18nException
              (Error_formatting hello_fragments [VNone] [(''name'', VNone)])
              (Some (I18nException (No_factory VNone) None))))), ?t)"
    by (simp add: eval_defs hello_fragments_def)
  have el: "effective_locale ?t ?missing None = Some ''en_US''"
      "effective_locale ?t ?bare None = Some ''en_US''"
      "effective_locale ?t (hello VNone) None = Some ''en_US''"
    by (simp_all add: effective_locale_def test_ts_def hello_def)
  have a: "translate ?t ?missing None
     = (Inl (I18nException (Error_translating (VMsg ?missing) (Some ''en_US''))
          (Some (I18nException (Missing_text ''missing'') None))), ?t)"
    using translate_raises_only_wrapped [THEN conjunct1, rule_format, OF la]
    by (simp only: el)
  have b: "translate ?t ?bare None
     = (Inl (I18nException (Error_translating (VMsg ?bare) (Some ''en_US''))
          (Some (I18nException (Error_formatting hello_fragments [] [])
             (Some (KeyError (VStr ''name'')))))), ?t)"
    using translate_raises_only_wrapped [THEN conjunct2, THEN conjunct1, rule_format, OF lb fb]
    by (simp add: el)
  have c: "MessageFormatter_format ?t hello_fragments (Some ''en_US'') [VNone] [(''name'', VNone)]
     = (Inl (I18nException (No_factory VNone) None), ?t)"
    using translate_raises_only_wrapped [THEN conjunct2, THEN conjunct2, rule_format, OF tc] lc
    by (auto simp: el hello_def)
  from a b c show ?thesis by simp
qed

section \<open>Comparing requests\<close>

text \<open>
  C7. \<^verbatim>\<open>m1 == m2\<close> should tell whether keys, positional and named arguments agree,
  the locale left out. The method lacks its second parameter, so every comparison
  raises \<^verbatim>\<open>TypeError\<close> and none returns a boolean.
\<close>

theorem eq_always_raises:
  "message_equals m1 m2
     = Inl (TypeError ''__eq__() takes 1 positional argument but 2 were given'')"
  by (simp add: message_equals_def I18NMessage_eq_def)

section \<open>The list formatter\<close>

lemma process_items_length:
  "process_items ts l items = (Inr ss, ts') \<Longrightarrow> length ss = length items"
  by (induction items arbitrary: ts ss) (auto split: prod.splits sum.splits)

lemma str_join_pair [simp]: "str_join j [a, b] = a @ j @ b"
  by simp

text \<open>
  C6. A list of no items renders as the \<open>list.empty\<close> message; one item as that item's
  own text, which the dispatch produces; two items as the first, the joiner, the second,
  the joiner being the \<open>list.or\<close> message when the option \<open>type\<close> is \<open>or\<close> and the
  \<open>list.and\<close> message otherwise; three or more as all but the last joined with the
  \<open>list.comma\<close> message, then the joiner, then the last.
\<close>

theorem list_formatter_cases:
  "ListFormatter_format ts l opts [] = translate ts empty_message l
   \<and> (dispatch ts l x [] = (Inr fm, ts1) \<longrightarrow> formatter_format ts1 fm x = (Inr s, ts2)
        \<longrightarrow> ListFormatter_format ts l opts [x] = (Inr s, ts2))
   \<and> (process_items ts l [x, y] = (Inr [a, b], ts1)
        \<longrightarrow> translate ts1 (get_tail_joiner opts) l = (Inr j, ts2)
        \<longrightarrow> ListFormatter_format ts l opts [x, y] = (Inr (a @ j @ b), ts2))
   \<and> (3 \<le> length items \<longrightarrow> process_items ts l items = (Inr ss, ts1)
        \<longrightarrow> translate ts1 comma_message l = (Inr c, ts2)
        \<longrightarrow> translate ts2 (get_tail_joiner opts) l = (Inr j, ts3)
        \<longrightarrow> ListFormatter_format ts l opts items
              = (Inr (str_join c (butlast ss) @ j @ last ss), ts3))
   \<and> get_tail_joiner opts
        = (if map_of opts ''type'' = Some (VStr ''or'') then or_message else and_message)"
proof (intro conjI impI)
  show "ListFormatter_format ts l opts [] = translate ts empty_message l"
    by (simp add: ListFormatter_format.simps)
next
  assume "dispatch ts l x [] = (Inr fm, ts1)" and "formatter_format ts1 fm x = (Inr s, ts2)"
  then show "ListFormatter_format ts l opts [x] = (Inr s, ts2)"
    by (simp add: ListFormatter_format.simps)
next
  assume "process_items ts l [x, y] = (Inr [a, b], ts1)"
    and "translate ts1 (get_tail_joiner opts) l = (Inr j, ts2)"
  then show "ListFormatter_format ts l opts [x, y] = (Inr (a @ j @ b), ts2)"
    by (simp add: ListFormatter_format.simps)
next
  assume n: "3 \<le> length items" and p: "process_items ts l items = (Inr ss, ts1)"
    and c: "translate ts1 comma_message l = (Inr c, ts2)"
    and j: "translate ts2 (get_tail_joiner opts) l = (Inr j, ts3)"
  from p have len: "length ss = length items"
    by (rule process_items_length)
  with n have "ss \<noteq> []" by auto
  then obtain bs t where ss: "ss = bs @ [t]"
    by (metis rev_exhaust)
  with n len have bs: "1 < length bs" by simp
  from n have ne: "items \<noteq> []" "length items \<noteq> 1" by auto
  from p ss have p': "process_items ts l items = (Inr (bs @ [t]), ts1)" by simp
  show "ListFormatter_format ts l opts items
      = (Inr (str_join c (butlast ss) @ j @ last ss), ts3)"
    using ne bs c j by (simp add: ListFormatter_format.simps p' ss)
next
  show "get_tail_joiner opts
      = (if map_of opts ''type'' = Some (VStr ''or'') then or_message else and_message)"
    by (simp add: get_tail_joiner_def)
qed

lemma test_list_messages:
  "translate ((test_ts FailOnMissingTextsStrategy)\<lparr>cache := c\<rparr>) empty_message (Some ''en_US'')
     = (Inr [], (test_ts FailOnMissingTextsStrategy)\<lparr>cache := c\<rparr>)"
  "translate ((test_ts FailOnMissingTextsStrategy)\<lparr>cache := c\<rparr>) comma_message (Some ''en_US'')
     = (Inr '', '', (test_ts FailOnMissingTextsStrategy)\<lparr>cache := c\<rparr>)"
  "translate ((test_ts FailOnMissingTextsStrategy)\<lparr>cache := c\<rparr>) and_message (Some ''en_US'')
     = (Inr '' and '', (test_ts FailOnMissingTextsStrategy)\<lparr>cache := c\<rparr>)"
  "translate ((test_ts FailOnMissingTextsStrategy)\<lparr>cache := c\<rparr>) or_message (Some ''en_US'')
     = (Inr '' or '', (test_ts FailOnMissingTextsStrategy)\<lparr>cache := c\<rparr>)"
  by (simp_all add: translate.simps test_ts_def lookup_message_def effective_locale_def
      LocaleFallbackStrategy_apply_def split_locale.simps lookup_single_locale_def Let_def
      empty_message_def comma_message_def and_message_def or_message_def)

lemma test_process_strings:
  "process_items (test_ts FailOnMissingTextsStrategy) (Some ''en_US'') (VStr s # map VStr ss)
     = (Inr (s # ss),
        (test_ts FailOnMissingTextsStrategy)\<lparr>cache := [T_str \<mapsto> StringFormatterFactory]\<rparr>)"
proof -
  let ?t' = "(test_ts FailOnMissingTextsStrategy)\<lparr>cache := [T_str \<mapsto> StringFormatterFactory]\<rparr>"
  have rest: "process_items ?t' (Some ''en_US'') (map VStr ss) = (Inr ss, ?t')"
    by (induction ss) (simp_all add: dispatch_def choose_delegate_def)
  have "dispatch (test_ts FailOnMissingTextsStrategy) (Some ''en_US'') (VStr s) []
      = (Inr StringFormatter, ?t')"
    by (simp add: dispatch_def choose_delegate_def test_ts_def builtin_delegates_def)
  with rest show ?thesis by simp
qed

theorem list_formatter_cases_witness:
  "ListFormatter_format (test_ts FailOnMissingTextsStrategy) (Some ''en_US'') [] []
     = (Inr [], test_ts FailOnMissingTextsStrategy)
   \<and> ListFormatter_format (test_ts FailOnMissingTextsStrategy) (Some ''en_US'') [] [VStr ''a'']
     = (Inr ''a'',
        (test_ts FailOnMissingTextsStrategy)\<lparr>cache := [T_str \<mapsto> StringFormatterFactory]\<rparr>)
   \<and> ListFormatter_format (test_ts FailOnMissingTextsStrategy) (Some ''en_US'')
        [(''type'', VStr ''or'')] [VStr ''a'', VStr ''b'']
     = (Inr ''a or b'',
        (test_ts FailOnMissingTextsStrategy)\<lparr>cache := [T_str \<mapsto> StringFormatterFactory]\<rparr>)
   \<and> ListFormatter_format (test_ts FailOnMissingTextsStrategy) (Some ''en_US'') []
        [VStr ''a'', VStr ''b'', VStr ''c'']
     = (Inr ''a, b and c'',
        (test_ts FailOnMissingTextsStrategy)\<lparr>cache := [T_str \<mapsto> StringFormatterFactory]\<rparr>)"
proof -
  let ?t = "test_ts FailOnMissingTextsStrategy"
  let ?c = "[T_str \<mapsto> StringFormatterFactory]"
  let ?t' = "?t\<lparr>cache := ?c\<rparr>"
  let ?l = "Some ''en_US''"
  have same: "?t\<lparr>cache := cache ?t\<rparr> = ?t" by simp
  have e: "translate ?t empty_message ?l = (Inr [], ?t)"
    using test_list_messages(1) [of "cache ?t"] by (simp only: same)
  have d: "dispatch ?t ?l (VStr ''a'') [] = (Inr StringFormatter, ?t')"
    by (simp add: dispatch_def choose_delegate_def test_ts_def builtin_delegates_def)
  have f: "formatter_format ?t' StringFormatter (VStr ''a'') = (Inr ''a'', ?t')"
    by simp
  have p2: "process_items ?t ?l [VStr ''a'', VStr ''b''] = (Inr [''a'', ''b''], ?t')"
    using test_process_strings [of "''a''" "[''b'']"] by simp
  have p3: "process_items ?t ?l [VStr ''a'', VStr ''b'', VStr ''c'']
      = (Inr [''a'', ''b'', ''c''], ?t')"
    using test_process_strings [of "''a''" "[''b'', ''c'']"] by simp
  have jo: "translate ?t' (get_tail_joiner [(''type'', VStr ''or'')]) ?l = (Inr '' or '', ?t')"
    using test_list_messages(4) [of ?c] by (simp add: get_tail_joiner_def)
  have ja: "translate ?t' (get_tail_joiner []) ?l = (Inr '' and '', ?t')"
    using test_list_messages(3) [of ?c] by (simp add: get_tail_joiner_def)
  have co: "translate ?t' comma_message ?l = (Inr '', '', ?t')"
    by (rule test_list_messages(2))
  have r0: "ListFormatter_format ?t ?l [] [] = (Inr [], ?t)"
    using list_formatter_cases [of ?t ?l "[]"] e by simp
  have r1: "ListFormatter_format ?t ?l [] [VStr ''a''] = (Inr ''a'', ?t')"
    using list_formatter_cases [of ?t ?l "[]" "VStr ''a''" StringFormatter ?t' "''a''" ?t'] d f
    by simp
  have r2: "ListFormatter_format ?t ?l [(''type'', VStr ''or'')] [VStr ''a'', VStr ''b'']
      = (Inr ''a or b'', ?t')"
    using list_formatter_cases [where ts = ?t and l = ?l and opts = "[(''type'', VStr ''or'')]"
        and x = "VStr ''a''" and y = "VStr ''b''" and a = "''a''" and b = "''b''"
        and ?ts1.0 = ?t' and j = "'' or ''" and ?ts2.0 = ?t'] p2 jo
    by simp
  have r3: "ListFormatter_format ?t ?l [] [VStr ''a'', VStr ''b'', VStr ''c'']
      = (Inr ''a, b and c'', ?t')"
    using list_formatter_cases [where ts = ?t and l = ?l and opts = "[]"
        and items = "[VStr ''a'', VStr ''b'', VStr ''c'']" and ss = "[''a'', ''b'', ''c'']"
        and ?ts1.0 = ?t' and c = "'', ''" and ?ts2.0 = ?t' and j = "'' and ''" and ?ts3.0 = ?t']
      p3 co ja
    by simp
  from r0 r1 r2 r3 show ?thesis by simp
qed

section \<open>The memoized dispatch\<close>

lemma delegates_choose [simp]: "delegates (snd (choose_delegate ts v)) = delegates ts"
  by (simp add: choose_delegate_def split: option.splits)

lemma delegates_run: "delegates (run_ops ts ops) = delegates ts @ registered ops"
  unfolding run_ops_def
proof (induction ops arbitrary: ts)
  case Nil
  show ?case by simp
next
  case (Cons op ops)
  then show ?case by (cases op) (simp_all add: register_def)
qed

lemma cache_apply_op: "cache ts t = Some d \<Longrightarrow> cache (apply_op ts op) t = Some d"
  by (cases op) (auto simp: register_def choose_delegate_def split: option.splits)

lemma cache_run: "cache ts t = Some d \<Longrightarrow> cache (run_ops ts ops) t = Some d"
  unfolding run_ops_def
  by (induction ops arbitrary: ts) (simp_all add: cache_apply_op)

lemma chosen_cached: "cache ts (type_of v) = Some d \<Longrightarrow> choose_delegate ts v = (Inr d, ts)"
  by (simp add: choose_delegate_def)

lemma chosen_stored:
  "chosen ts v = Inr d \<Longrightarrow> cache (snd (choose_delegate ts v)) (type_of v) = Some d"
  by (auto simp: chosen_def choose_delegate_def split: option.splits)

lemma chosen_uncached: "cache ts (type_of v) = None \<Longrightarrow> chosen ts v = scan_result ts v"
  by (simp add: chosen_def scan_result_def choose_delegate_def split: option.splits)

lemma first_match_by_type:
  "\<forall>d \<in> set ds. by_type_only d \<Longrightarrow> type_of v = type_of w
     \<Longrightarrow> first_match ds v = first_match ds w"
proof (induction ds)
  case Nil
  show ?case by simp
next
  case (Cons d ds)
  from Cons.prems have "by_type_only d" by simp
  with Cons.prems(2) have "can_handle d v = can_handle d w"
    unfolding by_type_only_def by blast
  with Cons show ?case by simp
qed

lemma first_match_append:
  "first_match ds v = Some d \<Longrightarrow> first_match (ds @ ds') v = Some d"
  by (induction ds) (auto split: if_splits)

lemma memo_sound_apply_op:
  assumes "memo_sound ts" and "\<forall>d \<in> set (delegates ts). by_type_only d"
  shows "memo_sound (apply_op ts op)"
proof (cases op)
  case (Register ds)
  with assms(1) show ?thesis
    by (auto simp: memo_sound_def register_def first_match_append)
next
  case (Lookup v)
  show ?thesis
  proof (cases "cache ts (type_of v)")
    case (Some d)
    with Lookup assms(1) show ?thesis
      by (simp add: choose_delegate_def)
  next
    case None
    show ?thesis
    proof (cases "first_match (delegates ts) v")
      case n: None
      with None Lookup assms(1) show ?thesis
        by (simp add: choose_delegate_def)
    next
      case (Some d)
      have "first_match (delegates ts) w = Some d" if "type_of w = type_of v" for w
        using first_match_by_type [OF assms(2) that] Some by simp
      with None Some Lookup assms(1) show ?thesis
        by (auto simp: choose_delegate_def memo_sound_def)
    qed
  qed
qed

lemma memo_sound_run:
  "memo_sound ts \<Longrightarrow> \<forall>d \<in> set (delegates ts @ registered ops). by_type_only d
     \<Longrightarrow> memo_sound (run_ops ts ops)"
  unfolding run_ops_def
proof (induction ops arbitrary: ts)
  case Nil
  then show ?case by simp
next
  case (Cons op ops)
  have s: "memo_sound (apply_op ts op)"
    using Cons.prems by (intro memo_sound_apply_op) auto
  have "delegates (apply_op ts op) @ registered ops = delegates ts @ registered (op # ops)"
    by (cases op) (simp_all add: register_def)
  with Cons.prems(2) have "\<forall>d \<in> set (delegates (apply_op ts op) @ registered ops). by_type_only d"
    by simp
  with s Cons.IH show ?case by simp
qed

lemma memo_sound_chosen: "memo_sound ts \<Longrightarrow> chosen ts v = scan_result ts v"
  by (auto simp: memo_sound_def chosen_def scan_result_def choose_delegate_def
      split: option.splits)

lemma can_handle_builtin:
  "can_handle StringFormatterFactory v = (type_of v = T_str)"
  "can_handle I18nMessageFormatterFactory v = (type_of v = T_I18NMessage)"
  "can_handle ListFormatterFactory v = (type_of v = T_list \<or> type_of v = T_tuple)"
  "can_handle NumberFormatterFactory v
     = (type_of v = T_int \<or> type_of v = T_bool \<or> type_of v = T_float)"
  by (cases v; simp)+

lemma builtin_by_type: "d \<in> set builtin_delegates \<Longrightarrow> by_type_only d"
  unfolding builtin_delegates_def by_type_only_def
  by (auto simp only: can_handle_builtin set_simps insert_iff empty_iff)

lemma fresh_memo_sound: "memo_sound (TranslationService loc strat)"
  by (simp add: memo_sound_def TranslationService_def)

text \<open>
  C9, as the code has it. A type that has a cache entry is served from it; once a
  lookup has chosen a factory for a type, every later lookup of a value of that type
  chooses the same one, whatever is registered or looked up in between; a type with
  no entry is resolved by the scan of the list, which holds the four built-in factories
  and then the registered ones in their order. Where every registered factory accepts
  by type alone, the factory chosen is always the one the scan would find.
\<close>

theorem memoized_dispatch:
  "(cache ts (type_of v) = Some d \<longrightarrow> choose_delegate ts v = (Inr d, ts))
   \<and> (chosen ts v = Inr d \<longrightarrow> type_of w = type_of v
        \<longrightarrow> chosen (run_ops (snd (choose_delegate ts v)) ops) w = Inr d)
   \<and> (cache ts (type_of v) = None \<longrightarrow> chosen ts v = scan_result ts v)
   \<and> delegates (run_ops (TranslationService loc strat) ops) = builtin_delegates @ registered ops
   \<and> ((\<forall>d \<in> set (registered ops). by_type_only d)
        \<longrightarrow> chosen (run_ops (TranslationService loc strat) ops) v
              = scan_result (run_ops (TranslationService loc strat) ops) v)"
proof (intro conjI impI)
  show "choose_delegate ts v = (Inr d, ts)" if "cache ts (type_of v) = Some d"
    using that by (rule chosen_cached)
next
  assume c: "chosen ts v = Inr d" and t: "type_of w = type_of v"
  from c have "cache (snd (choose_delegate ts v)) (type_of w) = Some d"
    using chosen_stored [of ts v d] t by simp
  then have "cache (run_ops (snd (choose_delegate ts v)) ops) (type_of w) = Some d"
    by (rule cache_run)
  then show "chosen (run_ops (snd (choose_delegate ts v)) ops) w = Inr d"
    by (simp add: chosen_def chosen_cached)
next
  show "chosen ts v = scan_result ts v" if "cache ts (type_of v) = None"
    using that by (rule chosen_uncached)
next
  show "delegates (run_ops (TranslationService loc strat) ops) = builtin_delegates @ registered ops"
    by (simp add: delegates_run TranslationService_def)
next
  assume a: "\<forall>d \<in> set (registered ops). by_type_only d"
  have "\<forall>d \<in> set (delegates (TranslationService loc strat) @ registered ops). by_type_only d"
    using a builtin_by_type by (auto simp: TranslationService_def)
  then have "memo_sound (run_ops (TranslationService loc strat) ops)"
    using fresh_memo_sound by (intro memo_sound_run) auto
  then show "chosen (run_ops (TranslationService loc strat) ops) v
      = scan_result (run_ops (TranslationService loc strat) ops) v"
    by (rule memo_sound_chosen)
qed

lemma date_handles: "can_handle date_factory (VObj ''date'' r)"
  by (simp add: date_factory_def)

lemma picky_handles: "can_handle picky_factory v = (v = VObj ''date'' ''a'')"
  by (simp add: picky_factory_def)

lemma picky_not_date: "picky_factory \<noteq> date_factory"
proof
  assume "picky_factory = date_factory"
  then have "can_handle picky_factory (VObj ''date'' ''b'') = can_handle date_factory (VObj ''date'' ''b'')"
    by simp
  then show False
    by (simp add: date_handles picky_handles)
qed

lemma picky_then_date_state:
  "run_ops (TranslationService None FailOnMissingTextsStrategy)
        [Register [picky_factory, date_factory], Lookup (VObj ''date'' ''a'')]
   = (TranslationService None FailOnMissingTextsStrategy)
       \<lparr>delegates := builtin_delegates @ [picky_factory, date_factory],
        cache := [T_object ''date'' \<mapsto> picky_factory]\<rparr>"
  by (simp add: run_ops_def register_def TranslationService_def builtin_delegates_def
        choose_delegate_def picky_handles)

text \<open>
  C9 as stated fails for a factory whose \<^verbatim>\<open>can_handle\<close> looks at the value: once the
  first factory is memoized for the class, it is chosen for an instance that it does
  not accept, where the scan finds the second.
\<close>

theorem memo_differs_from_scan_counterexample:
  "chosen
     (run_ops (TranslationService None FailOnMissingTextsStrategy)
        [Register [picky_factory, date_factory], Lookup (VObj ''date'' ''a'')])
     (VObj ''date'' ''b'') = Inr picky_factory
   \<and> scan_result
     (run_ops (TranslationService None FailOnMissingTextsStrategy)
        [Register [picky_factory, date_factory], Lookup (VObj ''date'' ''a'')])
     (VObj ''date'' ''b'') = Inr date_factory
   \<and> \<not> can_handle picky_factory (VObj ''date'' ''b'')
   \<and> picky_factory \<noteq> date_factory"
  by (simp add: picky_then_date_state picky_not_date chosen_def scan_result_def
      choose_delegate_def builtin_delegates_def date_handles picky_handles)

lemma date_by_type: "by_type_only date_factory"
  by (simp add: by_type_only_def date_factory_def)

theorem memoized_dispatch_witness:
  "choose_delegate
      ((TranslationService None FailOnMissingTextsStrategy)
         \<lparr>cache := [T_bool \<mapsto> NumberFormatterFactory]\<rparr>) (VBool True)
     = (Inr NumberFormatterFactory,
        (TranslationService None FailOnMissingTextsStrategy)
          \<lparr>cache := [T_bool \<mapsto> NumberFormatterFactory]\<rparr>)
   \<and> chosen
       (run_ops (snd (choose_delegate
                        (register (TranslationService None FailOnMissingTextsStrategy)
                           [picky_factory])
                        (VObj ''date'' ''a'')))
          [Register [date_factory]])
       (VObj ''date'' ''b'')
     = Inr picky_factory
   \<and> chosen (TranslationService None FailOnMissingTextsStrategy) (VInt 3)
     = scan_result (TranslationService None FailOnMissingTextsStrategy) (VInt 3)
   \<and> delegates (run_ops (TranslationService None FailOnMissingTextsStrategy)
                  [Register [date_factory], Lookup (VObj ''date'' ''a'')])
     = builtin_delegates @ [date_factory]
   \<and> chosen (run_ops (TranslationService None FailOnMissingTextsStrategy)
               [Register [date_factory], Lookup (VObj ''date'' ''a'')]) (VObj ''date'' ''b'')
     = scan_result (run_ops (TranslationService None FailOnMissingTextsStrategy)
               [Register [date_factory], Lookup (VObj ''date'' ''a'')]) (VObj ''date'' ''b'')"
proof -
  let ?fresh = "TranslationService None FailOnMissingTextsStrategy"
  let ?cached = "?fresh\<lparr>cache := [T_bool \<mapsto> NumberFormatterFactory]\<rparr>"
  let ?reg = "register ?fresh [picky_factory]"
  let ?ops = "[Register [date_factory], Lookup (VObj ''date'' ''a'')]"
  have h1: "cache ?cached (type_of (VBool True)) = Some NumberFormatterFactory"
    by simp
  have h2: "chosen ?reg (VObj ''date'' ''a'') = Inr picky_factory"
    by (simp add: chosen_def choose_delegate_def register_def TranslationService_def
        builtin_delegates_def picky_handles)
  have h2': "type_of (VObj ''date'' ''b'') = type_of (VObj ''date'' ''a'')"
    by simp
  have h3: "cache ?fresh (type_of (VInt 3)) = None"
    by (simp add: TranslationService_def)
  have h5: "\<forall>d \<in> set (registered ?ops). by_type_only d"
    by (simp add: date_by_type)
  have r: "registered ?ops = [date_factory]"
    by simp
  show ?thesis
    using memoized_dispatch [of ?cached "VBool True" NumberFormatterFactory]
      memoized_dispatch [of ?reg "VObj ''date'' ''a''" picky_factory "VObj ''date'' ''b''"
        "[Register [date_factory]]"]
      memoized_dispatch [of ?fresh "VInt 3"]
      memoized_dispatch [of _ "VObj ''date'' ''b''" _ _ ?ops None FailOnMissingTextsStrategy]
      h1 h2 h2' h3 h5 r
    by simp
qed

section \<open>Numbers\<close>

lemma digit_val_char: "d < 10 \<Longrightarrow> digit_val (digit_char d) = d"
proof -
  assume "d < 10"
  then have "d \<in> {0, 1, 2, 3, 4, 5, 6, 7, 8, 9}" by auto
  then show ?thesis
    by (auto simp: digit_val_def digit_char_def)
qed

lemma digits_value_decimal: "digits_value (decimal n) = n"
proof (induction n rule: decimal.induct)
  case (1 n)
  show ?case
  proof (cases "n < 10")
    case True
    then show ?thesis
      by (simp add: decimal.simps [of n] digits_value_def digit_val_char)
  next
    case False
    with 1 have "digits_value (decimal (n div 10)) = n div 10" by simp
    with False show ?thesis
      by (simp add: decimal.simps [of n] digits_value_def digit_val_char)
  qed
qed

lemma float_literals:
  "nearest_double 7074029114692207 51 31415 10000"
  "nearest_double 7081910414040105 51 3145 1000"
  by (simp_all add: nearest_double_def)

lemma format_examples:
  "str_int 0 = ''0''" "str_int (- 1234) = ''-1234''"
  "str_int 123456789012345678901234567890 = ''123456789012345678901234567890''"
  "format_f 2 (Finite False 0 0) = ''0.00''"
  "format_f 2 (Finite False 7074029114692207 (- 51)) = ''3.14''"
  "format_f 2 (Finite False 7081910414040105 (- 51)) = ''3.15''"
  by (simp_all add: str_int_def decimal.simps digit_char_def scaled_def fixed_digits_def
      rhe_div_def Let_def)

lemma percent_d_int: "py_percent ''%d'' (VInt i) = Inr (str_int i)"
  by (simp add: py_percent_def)

lemma percent_2f_float: "py_percent ''%.2f'' (VFloat x) = Inr (format_f 2 x)"
  by (simp add: py_percent_def is_digit_def digit_val_def) (simp add: numeral_2_eq_2)

text \<open>
  C8. With no plural option, and the integer spec message rendering as \<open>%d\<close>, an
  integer is rendered as its decimal digits with its sign, whatever its size: 0 as
  \<open>0\<close>, -1234 as \<open>-1234\<close>, 123456789012345678901234567890 as itself. With the float
  spec message rendering as \<open>%.2f\<close>, a float is rendered rounded to two decimals: 0.0
  as \<open>0.00\<close>, 3.1415 as \<open>3.14\<close>, 3.145 as \<open>3.15\<close> (the doubles of the two literals are
  those of \<open>float_literals\<close>).
\<close>

theorem number_rendering:
  "(translate ts int_message l = (Inr ''%d'', ts1)
      \<longrightarrow> NumberFormatter_format ts l VNone (VInt i) = (Inr (str_int i), ts1))
   \<and> str_int i = (if i < 0 then CHR ''-'' # decimal (nat (- i)) else decimal (nat i))
   \<and> digits_value (decimal n) = n
   \<and> str_int 0 = ''0''
   \<and> str_int (- 1234) = ''-1234''
   \<and> str_int 123456789012345678901234567890 = ''123456789012345678901234567890''
   \<and> (translate ts float_message l = (Inr ''%.2f'', ts1)
      \<longrightarrow> NumberFormatter_format ts l VNone (VFloat x) = (Inr (format_f 2 x), ts1))
   \<and> format_f 2 (Finite False 0 0) = ''0.00''
   \<and> format_f 2 (Finite False 7074029114692207 (- 51)) = ''3.14''
   \<and> format_f 2 (Finite False 7081910414040105 (- 51)) = ''3.15''"
proof (intro conjI)
  show "translate ts int_message l = (Inr ''%d'', ts1)
      \<longrightarrow> NumberFormatter_format ts l VNone (VInt i) = (Inr (str_int i), ts1)"
    by (simp add: NumberFormatter_format.simps percent_d_int)
  show "translate ts float_message l = (Inr ''%.2f'', ts1)
      \<longrightarrow> NumberFormatter_format ts l VNone (VFloat x) = (Inr (format_f 2 x), ts1)"
    by (simp add: NumberFormatter_format.simps percent_2f_float)
  show "str_int i = (if i < 0 then CHR ''-'' # decimal (nat (- i)) else decimal (nat i))"
    by (rule str_int_def)
  show "digits_value (decimal n) = n"
    by (rule digits_value_decimal)
qed (rule format_examples)+

lemma test_spec_messages:
  "translate ((test_ts FailOnMissingTextsStrategy)\<lparr>cache := c\<rparr>) int_message (Some ''en_US'')
     = (Inr ''%d'', (test_ts FailOnMissingTextsStrategy)\<lparr>cache := c\<rparr>)"
  "translate ((test_ts FailOnMissingTextsStrategy)\<lparr>cache := c\<rparr>) float_message (Some ''en_US'')
     = (Inr ''%.2f'', (test_ts FailOnMissingTextsStrategy)\<lparr>cache := c\<rparr>)"
  by (simp_all add: translate.simps test_ts_def lookup_message_def effective_locale_def
      LocaleFallbackStrategy_apply_def split_locale.simps lookup_single_locale_def Let_def
      int_message_def float_message_def)

theorem number_rendering_witness:
  "NumberFormatter_format (test_ts FailOnMissingTextsStrategy) (Some ''en_US'') VNone
      (VInt (- 1234))
     = (Inr ''-1234'', test_ts FailOnMissingTextsStrategy)
   \<and> NumberFormatter_format (test_ts FailOnMissingTextsStrategy) (Some ''en_US'') VNone
      (VFloat (Finite False 7081910414040105 (- 51)))
     = (Inr ''3.15'', test_ts FailOnMissingTextsStrategy)
   \<and> fst (translate (test_ts FailOnMissingTextsStrategy) (number (VInt 0)) None) = Inr ''0''
   \<and> fst (translate (test_ts FailOnMissingTextsStrategy)
          (number (VInt 123456789012345678901234567890)) None)
       = Inr ''123456789012345678901234567890''
   \<and> fst (translate (test_ts FailOnMissingTextsStrategy)
          (number (VFloat (Finite False 0 0))) None) = Inr ''0.00''
   \<and> fst (translate (test_ts FailOnMissingTextsStrategy)
          (number (VFloat (Finite False 7074029114692207 (- 51)))) None) = Inr ''3.14''"
proof -
  let ?t = "test_ts FailOnMissingTextsStrategy"
  have same: "?t\<lparr>cache := cache ?t\<rparr> = ?t" by simp
  have i: "translate ?t int_message (Some ''en_US'') = (Inr ''%d'', ?t)"
    using test_spec_messages(1) [of "cache ?t"] by (simp only: same)
  have f: "translate ?t float_message (Some ''en_US'') = (Inr ''%.2f'', ?t)"
    using test_spec_messages(2) [of "cache ?t"] by (simp only: same)
  note th = number_rendering [of ?t "Some ''en_US''" ?t "- 1234" 0
      "Finite False 7081910414040105 (- 51)"]
  have "NumberFormatter_format ?t (Some ''en_US'') VNone (VInt (- 1234))
      = (Inr (str_int (- 1234)), ?t)"
    using th i by blast
  then have a: "NumberFormatter_format ?t (Some ''en_US'') VNone (VInt (- 1234))
      = (Inr ''-1234'', ?t)"
    by (simp only: format_examples)
  have "NumberFormatter_format ?t (Some ''en_US'') VNone
      (VFloat (Finite False 7081910414040105 (- 51)))
      = (Inr (format_f 2 (Finite False 7081910414040105 (- 51))), ?t)"
    using th f by blast
  then have b: "NumberFormatter_format ?t (Some ''en_US'') VNone
      (VFloat (Finite False 7081910414040105 (- 51))) = (Inr ''3.15'', ?t)"
    by (simp only: format_examples)
  have c: "fst (translate ?t (number (VInt 0)) None) = Inr ''0''"
    by (simp add: eval_defs)
  have d: "fst (translate ?t (number (VInt 123456789012345678901234567890)) None)
      = Inr ''123456789012345678901234567890''"
    by (simp add: eval_defs)
  have e: "fst (translate ?t (number (VFloat (Finite False 0 0))) None) = Inr ''0.00''"
    by (simp add: eval_defs)
  have g: "fst (translate ?t (number (VFloat (Finite False 7074029114692207 (- 51)))) None)
      = Inr ''3.14''"
    by (simp add: eval_defs)
  from a b c d e g show ?thesis by simp
qed

section \<open>Booleans\<close>

lemma first_match_bool:
  "first_match (builtin_delegates @ exts) (VBool b) = Some NumberFormatterFactory"
  by (simp add: builtin_delegates_def)

lemma percent_d_bool: "py_percent ''%d'' (VBool b) = Inr (if b then ''1'' else ''0'')"
  by (simp add: py_percent_def)

text \<open>
  C10. A boolean is accepted by none of the string, message and list factories and
  by the number factory, so the dispatch chooses the number formatter for it; with the
  integer spec message rendering as \<open>%d\<close> and no plural option, an argument
  \<open>True\<close> is rendered \<open>1\<close> and \<open>False\<close> is rendered \<open>0\<close>.
\<close>

theorem bool_rendered_as_number:
  "first_match (builtin_delegates @ exts) (VBool b) = Some NumberFormatterFactory
   \<and> \<not> can_handle StringFormatterFactory (VBool b)
   \<and> \<not> can_handle I18nMessageFormatterFactory (VBool b)
   \<and> \<not> can_handle ListFormatterFactory (VBool b)
   \<and> (ref_get r xs kw = Inr (VBool b) \<longrightarrow> cache ts T_bool = None
        \<longrightarrow> delegates ts = builtin_delegates @ exts
        \<longrightarrow> translate (ts\<lparr>cache := (cache ts)(T_bool \<mapsto> NumberFormatterFactory)\<rparr>)
              int_message l = (Inr ''%d'', ts1)
        \<longrightarrow> append_to ts (ArgumentFragment r []) l xs kw
              = (Inr (if b then ''1'' else ''0''), ts1))"
  by (simp add: first_match_bool dispatch_def choose_delegate_def
      NumberFormatter_format.simps percent_d_bool)

theorem bool_rendered_as_number_witness:
  "append_to (test_ts FailOnMissingTextsStrategy) (ArgumentFragment (NameRef (VStr ''n'')) [])
      (Some ''en_US'') [VBool True] [(''n'', VBool True)]
     = (Inr ''1'',
        (test_ts FailOnMissingTextsStrategy)\<lparr>cache := [T_bool \<mapsto> NumberFormatterFactory]\<rparr>)
   \<and> fst (translate (test_ts FailOnMissingTextsStrategy) (number (VBool True)) None) = Inr ''1''
   \<and> fst (translate (test_ts FailOnMissingTextsStrategy) (number (VBool False)) None) = Inr ''0''"
proof -
  let ?t = "test_ts FailOnMissingTextsStrategy"
  let ?t' = "?t\<lparr>cache := [T_bool \<mapsto> NumberFormatterFactory]\<rparr>"
  have r: "ref_get (NameRef (VStr ''n'')) [VBool True] [(''n'', VBool True)] = Inr (VBool True)"
    by simp
  have c: "cache ?t T_bool = None" by (simp add: test_ts_def)
  have d: "delegates ?t = builtin_delegates @ []" by (simp add: test_ts_def)
  have u: "?t\<lparr>cache := (cache ?t)(T_bool \<mapsto> NumberFormatterFactory)\<rparr> = ?t'"
    by (simp add: test_ts_def)
  have i: "translate (?t\<lparr>cache := (cache ?t)(T_bool \<mapsto> NumberFormatterFactory)\<rparr>)
      int_message (Some ''en_US'') = (Inr ''%d'', ?t')"
    using test_spec_messages(1) [of "[T_bool \<mapsto> NumberFormatterFactory]"] by (simp only: u)
  have a: "append_to ?t (ArgumentFragment (NameRef (VStr ''n'')) []) (Some ''en_US'')
      [VBool True] [(''n'', VBool True)] = (Inr ''1'', ?t')"
    using bool_rendered_as_number [of "[]" True "NameRef (VStr ''n'')" "[VBool True]"
        "[(''n'', VBool True)]" ?t "Some ''en_US''" ?t'] r c d i
    by simp
  have t: "fst (translate ?t (number (VBool True)) None) = Inr ''1''"
    by (simp add: eval_defs)
  have f: "fst (translate ?t (number (VBool False)) None) = Inr ''0''"
    by (simp add: eval_defs)
  from a t f show ?thesis by simp
qed

end
